theory Spec2Isabelle
  imports Complex_Main "HOL-Library.AList"
begin

section \<open>The AR Wizard memory manager (ARWizardMemoryManager)\<close>

text \<open>
  A shallow embedding of the class \<^verbatim>\<open>ARWizardMemoryManager\<close>: five namespaces of an
  underlying key/value memory, and the store, retrieval, selection, import and
  maintenance methods built on its four primitives.

  Conventions of the embedding.
  \<^item> A \<^verbatim>\<open>Date\<close> is its \<^verbatim>\<open>getTime()\<close> value, milliseconds as an \<open>int\<close>; every
    \<^verbatim>\<open>new Date()\<close> of the source is a time argument of the model.
  \<^item> Millisecond amounts are \<open>int\<close>. The counter \<^verbatim>\<open>usageCount\<close> is a number with an
    integer value, an \<open>int\<close>, and \<^verbatim>\<open>usageCount++\<close> is the increment of a double,
    \<open>js_increment\<close>. Scores (\<^verbatim>\<open>accuracy\<close>, \<^verbatim>\<open>confidence\<close>) are \<open>real\<close>: finite numbers,
    compared and subtracted as such.
  \<^item> Payloads typed \<^verbatim>\<open>any\<close> are a type parameter \<open>'p\<close>.
  \<^item> An optional argument or field (\<^verbatim>\<open>x?: T\<close>, possibly \<^verbatim>\<open>undefined\<close> or \<^verbatim>\<open>null\<close>) is an
    \<open>option\<close>.
  \<^item> Each namespace holds records of one interface, so the memory is a record of five
    typed namespaces.
\<close>

subsection \<open>Data model\<close>

datatype ExpertiseType = sql_procedure | business_rule | schema_knowledge | billing_pattern

datatype ExpertiseDomain =
  job_billing | job_costing | contract_management | change_orders | wip_analysis

record 'p ViewpointExpertise =
  ve_id :: string
  ve_type :: ExpertiseType
  ve_domain :: ExpertiseDomain
  ve_content :: 'p
  ve_confidence :: real
  ve_lastUpdated :: int
  ve_source :: string
  ve_validated :: bool
  usageCount :: int

datatype KnowledgeCategory =
  kc_predictive_model | kc_billing_rule | kc_integration_pattern | kc_test_case

record KnowledgePerformance =
  executionTime :: real
  memoryUsage :: real
  successRate :: real

record 'p ARWizardKnowledge =
  ak_id :: string
  ak_category :: KnowledgeCategory
  ak_description :: string
  ak_implementation :: 'p
  ak_accuracy :: "real option"
  ak_performance :: "KnowledgePerformance option"
  ak_dependencies :: "string list"
  createdAt :: int
  lastUsed :: int

datatype Database = kls | gbi | taft | ideal

datatype AnalysisType =
  data_quality | at_performance | at_pattern_recognition | schema_analysis

record AnalysisMetrics =
  dataVolume :: real
  qualityScore :: real
  performanceScore :: real
  completenessScore :: real

record 'p DatabaseAnalysis =
  da_id :: string
  da_database :: Database
  da_analysisType :: AnalysisType
  da_results :: 'p
  da_metrics :: AnalysisMetrics
  da_recommendations :: "string list"
  analyzedAt :: int
  validUntil :: int

datatype ModelType =
  billing_prediction | cost_analysis | wip_calculation | mt_pattern_recognition

record TrainingData =
  td_source :: string
  td_size :: int
  td_dateRange_start :: int
  td_dateRange_end :: int

record ModelPerformance =
  accuracy :: real
  precision :: real
  recall :: real
  f1Score :: real

record 'p PredictiveModel =
  pm_id :: string
  pm_name :: string
  pm_type :: ModelType
  pm_algorithm :: string
  pm_features :: "string list"
  pm_trainingData :: TrainingData
  pm_performance :: ModelPerformance
  pm_model :: 'p
  pm_version :: string
  trainedAt :: int
  lastValidated :: int

text \<open>The wrapper that \<^verbatim>\<open>storeSharedContext\<close> writes: \<^verbatim>\<open>{data, timestamp, ttl}\<close>.\<close>

record 'p SharedContextRecord =
  sc_data :: 'p
  sc_timestamp :: int
  sc_ttl :: int

subsection \<open>The underlying memory\<close>

text \<open>
  The class \<^verbatim>\<open>DistributedMemorySystem\<close> (file \<^verbatim>\<open>distributed-memory.js\<close>) is imported by
  the manager but is not among the sources. Its four primitives are modelled from section
  4.1 of the specification. A namespace is an association list in insertion order, which
  fixes the order of a query that the specification leaves open. Records cross the
  boundary by value, and the medium is reachable, so no primitive faults.
\<close>

type_synonym 'v namespace = "(string \<times> 'v) list"

text \<open>
  Modelled from the spec: \<^verbatim>\<open>store\<close> of the absent \<^verbatim>\<open>DistributedMemorySystem\<close>, the
  specification's \<^verbatim>\<open>put(namespace, id, record)\<close>, "stores/overwrites record under id
  within namespace".
\<close>

definition memory_store :: "string \<Rightarrow> 'v \<Rightarrow> 'v namespace \<Rightarrow> 'v namespace" where
  "memory_store key v ns = AList.update key v ns"

text \<open>
  Modelled from the spec: \<^verbatim>\<open>get\<close> of the absent \<^verbatim>\<open>DistributedMemorySystem\<close>, "returns
  the record or a not-found signal (null/option), no error for absence".
\<close>

definition memory_get :: "string \<Rightarrow> 'v namespace \<Rightarrow> 'v option" where
  "memory_get key ns = map_of ns key"

text \<open>
  Modelled from the spec: \<^verbatim>\<open>query\<close> of the absent \<^verbatim>\<open>DistributedMemorySystem\<close>, "returns
  all records in namespace matching predicate"; "empty match, empty sequence, never an
  error". The criteria object is a predicate on records.
\<close>

definition memory_query :: "('v \<Rightarrow> bool) \<Rightarrow> 'v namespace \<Rightarrow> 'v list" where
  "memory_query criteria ns = filter criteria (map snd ns)"

text \<open>
  Modelled from the spec: \<^verbatim>\<open>delete\<close> of the absent \<^verbatim>\<open>DistributedMemorySystem\<close>,
  "removes the record; deleting an absent id is a no-op success".
\<close>

definition memory_delete :: "string \<Rightarrow> 'v namespace \<Rightarrow> 'v namespace" where
  "memory_delete key ns = AList.delete key ns"

text \<open>
  The five namespaces of the manager: \<^verbatim>\<open>ar-wizard:viewpoint-expertise\<close>,
  \<^verbatim>\<open>ar-wizard:knowledge\<close>, \<^verbatim>\<open>ar-wizard:database-analysis\<close>,
  \<^verbatim>\<open>ar-wizard:predictive-models\<close> and \<^verbatim>\<open>ar-wizard:shared-context\<close>.
\<close>

record 'p memory =
  VIEWPOINT_EXPERTISE_NS :: "'p ViewpointExpertise namespace"
  AR_WIZARD_KNOWLEDGE_NS :: "'p ARWizardKnowledge namespace"
  DATABASE_ANALYSIS_NS :: "'p DatabaseAnalysis namespace"
  PREDICTIVE_MODELS_NS :: "'p PredictiveModel namespace"
  SHARED_CONTEXT_NS :: "'p SharedContextRecord namespace"

definition empty_memory :: "'p memory" where
  "empty_memory = \<lparr>VIEWPOINT_EXPERTISE_NS = [], AR_WIZARD_KNOWLEDGE_NS = [],
     DATABASE_ANALYSIS_NS = [], PREDICTIVE_MODELS_NS = [], SHARED_CONTEXT_NS = []\<rparr>"

subsection \<open>Shared context\<close>

text \<open>
  \<^verbatim>\<open>ttl || 3600000\<close>: the default replaces every falsy \<^verbatim>\<open>ttl\<close>, that is an omitted
  one and the number 0.
\<close>

definition ttl_or_default :: "int option \<Rightarrow> int" where
  "ttl_or_default ttl =
     (case ttl of None \<Rightarrow> 3600000 | Some t \<Rightarrow> if t = 0 then 3600000 else t)"

definition storeSharedContext ::
  "string \<Rightarrow> 'p \<Rightarrow> int option \<Rightarrow> int \<Rightarrow> 'p memory \<Rightarrow> 'p memory" where
  "storeSharedContext key context ttl now m =
     m\<lparr>SHARED_CONTEXT_NS :=
         memory_store key \<lparr>sc_data = context, sc_timestamp = now, sc_ttl = ttl_or_default ttl\<rparr>
           (SHARED_CONTEXT_NS m)\<rparr>"

definition getSharedContext :: "string \<Rightarrow> int \<Rightarrow> 'p memory \<Rightarrow> 'p option \<times> 'p memory" where
  "getSharedContext key now m =
     (case memory_get key (SHARED_CONTEXT_NS m) of
        None \<Rightarrow> (None, m)
      | Some contextRecord \<Rightarrow>
          if now - sc_timestamp contextRecord > sc_ttl contextRecord
          then (None, m\<lparr>SHARED_CONTEXT_NS := memory_delete key (SHARED_CONTEXT_NS m)\<rparr>)
          else (Some (sc_data contextRecord), m))"

subsection \<open>Viewpoint expertise\<close>

text \<open>
  \<^verbatim>\<open>generateId\<close> (file \<^verbatim>\<open>utils/helpers.js\<close>) is not among the sources: the id it
  returns is the argument \<open>newId\<close> of each store method. The object spread
  \<^verbatim>\<open>{...expertise, id, lastUpdated: new Date(), usageCount: 0}\<close> is a record update of
  the caller's record.
\<close>

definition storeViewpointExpertise ::
  "string \<Rightarrow> 'p ViewpointExpertise \<Rightarrow> int \<Rightarrow> 'p memory \<Rightarrow> string \<times> 'p memory" where
  "storeViewpointExpertise newId expertise now m =
     (let expertiseRecord = expertise\<lparr>ve_id := newId, ve_lastUpdated := now, usageCount := 0\<rparr>
      in (newId, m\<lparr>VIEWPOINT_EXPERTISE_NS :=
                  memory_store newId expertiseRecord (VIEWPOINT_EXPERTISE_NS m)\<rparr>))"

text \<open>The query object \<^verbatim>\<open>{domain, ...(type && {type})}\<close>.\<close>

definition expertise_criteria ::
  "ExpertiseDomain \<Rightarrow> ExpertiseType option \<Rightarrow> 'p ViewpointExpertise \<Rightarrow> bool" where
  "expertise_criteria domain type e =
     (ve_domain e = domain \<and> (case type of None \<Rightarrow> True | Some t \<Rightarrow> ve_type e = t))"

text \<open>
  \<^verbatim>\<open>x++\<close> on a number with an integer value: the double nearest to \<open>x + 1\<close>, a tie going
  to the even significand. From \<open>-2^53\<close> to below \<open>2^53\<close> the sum is exact. Between
  \<open>2^53\<close> and \<open>2^54\<close> in absolute value the doubles are the even integers, \<open>x + 1\<close>
  lies midway between \<open>x\<close> and \<open>x + 2\<close>, and the multiple of 4 among the two has the
  even significand. From \<open>2^54\<close> on in absolute value, \<open>x + 1\<close> rounds back to \<open>x\<close>.
\<close>

definition js_increment :: "int \<Rightarrow> int" where
  "js_increment x =
     (if - (2 ^ 53) \<le> x \<and> x < 2 ^ 53 then x + 1
      else if - (2 ^ 54) < x \<and> x < 2 ^ 54 then (if x mod 4 = 0 then x else x + 2)
      else x)"

text \<open>
  The loop of \<^verbatim>\<open>getViewpointExpertise\<close>: \<^verbatim>\<open>expertise.usageCount++\<close> on the caller's
  copy, then \<^verbatim>\<open>store\<close> of the copy under \<^verbatim>\<open>expertise.id\<close>. It yields the mutated
  array and the namespace.
\<close>

fun usage_loop ::
  "'p ViewpointExpertise list \<Rightarrow> 'p ViewpointExpertise namespace \<Rightarrow>
   'p ViewpointExpertise list \<times> 'p ViewpointExpertise namespace" where
  "usage_loop [] ns = ([], ns)"
| "usage_loop (expertise # rest) ns =
     (let expertise' = expertise\<lparr>usageCount := js_increment (usageCount expertise)\<rparr>;
          ns' = memory_store (ve_id expertise') expertise' ns;
          (rest', ns'') = usage_loop rest ns'
      in (expertise' # rest', ns''))"

definition getViewpointExpertise ::
  "ExpertiseDomain \<Rightarrow> ExpertiseType option \<Rightarrow> 'p memory \<Rightarrow>
   'p ViewpointExpertise list \<times> 'p memory" where
  "getViewpointExpertise domain type m =
     (let allExpertise = memory_query (expertise_criteria domain type) (VIEWPOINT_EXPERTISE_NS m);
          (returned, ns) = usage_loop allExpertise (VIEWPOINT_EXPERTISE_NS m)
      in (returned, m\<lparr>VIEWPOINT_EXPERTISE_NS := ns\<rparr>))"

text \<open>
  \<^verbatim>\<open>searchViewpointExpertise\<close>: the meaning of the memory's \<^verbatim>\<open>$text\<close> operator is the
  parameter \<open>text_search\<close>; the domain is added to the criteria when given.
\<close>

definition searchViewpointExpertise ::
  "(string \<Rightarrow> 'p ViewpointExpertise \<Rightarrow> bool) \<Rightarrow> string \<Rightarrow> ExpertiseDomain option \<Rightarrow>
   'p memory \<Rightarrow> 'p ViewpointExpertise list" where
  "searchViewpointExpertise text_search query domain m =
     memory_query
       (\<lambda>e. text_search query e \<and> (case domain of None \<Rightarrow> True | Some d \<Rightarrow> ve_domain e = d))
       (VIEWPOINT_EXPERTISE_NS m)"

subsection \<open>AR Wizard knowledge\<close>

definition storeARWizardKnowledge ::
  "string \<Rightarrow> 'p ARWizardKnowledge \<Rightarrow> int \<Rightarrow> int \<Rightarrow> 'p memory \<Rightarrow> string \<times> 'p memory" where
  "storeARWizardKnowledge newId knowledge now1 now2 m =
     (let knowledgeRecord = knowledge\<lparr>ak_id := newId, createdAt := now1, lastUsed := now2\<rparr>
      in (newId, m\<lparr>AR_WIZARD_KNOWLEDGE_NS :=
                  memory_store newId knowledgeRecord (AR_WIZARD_KNOWLEDGE_NS m)\<rparr>))"

text \<open>
  The loop of \<^verbatim>\<open>getARWizardKnowledge\<close> reads the clock once per item: \<open>clock i\<close> is
  the time read in iteration \<open>i\<close>.
\<close>

fun last_used_loop ::
  "(nat \<Rightarrow> int) \<Rightarrow> nat \<Rightarrow> 'p ARWizardKnowledge list \<Rightarrow> 'p ARWizardKnowledge namespace \<Rightarrow>
   'p ARWizardKnowledge list \<times> 'p ARWizardKnowledge namespace" where
  "last_used_loop clock i [] ns = ([], ns)"
| "last_used_loop clock i (item # rest) ns =
     (let item' = item\<lparr>lastUsed := clock i\<rparr>;
          ns' = memory_store (ak_id item') item' ns;
          (rest', ns'') = last_used_loop clock (Suc i) rest ns'
      in (item' # rest', ns''))"

definition getARWizardKnowledge ::
  "KnowledgeCategory \<Rightarrow> (nat \<Rightarrow> int) \<Rightarrow> 'p memory \<Rightarrow> 'p ARWizardKnowledge list \<times> 'p memory" where
  "getARWizardKnowledge category clock m =
     (let knowledge = memory_query (\<lambda>k. ak_category k = category) (AR_WIZARD_KNOWLEDGE_NS m);
          (returned, ns) = last_used_loop clock 0 knowledge (AR_WIZARD_KNOWLEDGE_NS m)
      in (returned, m\<lparr>AR_WIZARD_KNOWLEDGE_NS := ns\<rparr>))"

subsection \<open>Database analyses\<close>

definition storeDatabaseAnalysis ::
  "string \<Rightarrow> 'p DatabaseAnalysis \<Rightarrow> int \<Rightarrow> 'p memory \<Rightarrow> string \<times> 'p memory" where
  "storeDatabaseAnalysis newId analysis now m =
     (let analysisRecord = analysis\<lparr>da_id := newId, analyzedAt := now\<rparr>
      in (newId, m\<lparr>DATABASE_ANALYSIS_NS :=
                  memory_store newId analysisRecord (DATABASE_ANALYSIS_NS m)\<rparr>))"

definition analysis_criteria ::
  "Database \<Rightarrow> AnalysisType option \<Rightarrow> 'p DatabaseAnalysis \<Rightarrow> bool" where
  "analysis_criteria database analysisType a =
     (da_database a = database \<and>
      (case analysisType of None \<Rightarrow> True | Some t \<Rightarrow> da_analysisType a = t))"

definition getDatabaseAnalysis ::
  "Database \<Rightarrow> AnalysisType option \<Rightarrow> int \<Rightarrow> 'p memory \<Rightarrow> 'p DatabaseAnalysis list" where
  "getDatabaseAnalysis database analysisType now m =
     (let analyses = memory_query (analysis_criteria database analysisType) (DATABASE_ANALYSIS_NS m)
      in filter (\<lambda>analysis. validUntil analysis > now) analyses)"

text \<open>
  \<^verbatim>\<open>Array.prototype.sort\<close> with a comparator, as ECMAScript defines it: the sort is
  stable, and \<open>a\<close> comes before \<open>b\<close> when \<open>cmp a b\<close> is negative. An insertion sort
  from the right is such a sort.
\<close>

fun insert_by :: "('a \<Rightarrow> 'a \<Rightarrow> 'n::{zero,linorder}) \<Rightarrow> 'a \<Rightarrow> 'a list \<Rightarrow> 'a list" where
  "insert_by cmp x [] = [x]"
| "insert_by cmp x (y # ys) = (if cmp x y \<le> 0 then x # y # ys else y # insert_by cmp x ys)"

definition js_sort :: "('a \<Rightarrow> 'a \<Rightarrow> 'n::{zero,linorder}) \<Rightarrow> 'a list \<Rightarrow> 'a list" where
  "js_sort cmp xs = foldr (insert_by cmp) xs []"

text \<open>\<^verbatim>\<open>xs[0]\<close>: the first element, \<^verbatim>\<open>undefined\<close> on an empty array.\<close>

definition index0 :: "'a list \<Rightarrow> 'a option" where
  "index0 xs = (case xs of [] \<Rightarrow> None | x # _ \<Rightarrow> Some x)"

definition getLatestDatabaseAnalysis ::
  "Database \<Rightarrow> AnalysisType \<Rightarrow> int \<Rightarrow> 'p memory \<Rightarrow> 'p DatabaseAnalysis option" where
  "getLatestDatabaseAnalysis database analysisType now m =
     (let analyses = getDatabaseAnalysis database (Some analysisType) now m
      in if length analyses = 0 then None
         else index0 (js_sort (\<lambda>a b. analyzedAt b - analyzedAt a) analyses))"

subsection \<open>Predictive models\<close>

definition storePredictiveModel ::
  "string \<Rightarrow> 'p PredictiveModel \<Rightarrow> int \<Rightarrow> int \<Rightarrow> 'p memory \<Rightarrow> string \<times> 'p memory" where
  "storePredictiveModel newId model now1 now2 m =
     (let modelRecord = model\<lparr>pm_id := newId, trainedAt := now1, lastValidated := now2\<rparr>
      in (newId, m\<lparr>PREDICTIVE_MODELS_NS :=
                  memory_store newId modelRecord (PREDICTIVE_MODELS_NS m)\<rparr>))"

text \<open>\<^verbatim>\<open>if (name)\<close>: an omitted name and the empty string add no criterion.\<close>

definition model_criteria :: "ModelType \<Rightarrow> string option \<Rightarrow> 'p PredictiveModel \<Rightarrow> bool" where
  "model_criteria type name model =
     (pm_type model = type \<and>
      (case name of None \<Rightarrow> True | Some n \<Rightarrow> if n = [] then True else pm_name model = n))"

definition getPredictiveModel ::
  "ModelType \<Rightarrow> string option \<Rightarrow> 'p memory \<Rightarrow> 'p PredictiveModel list" where
  "getPredictiveModel type name m = memory_query (model_criteria type name) (PREDICTIVE_MODELS_NS m)"

definition getBestPredictiveModel :: "ModelType \<Rightarrow> 'p memory \<Rightarrow> 'p PredictiveModel option" where
  "getBestPredictiveModel type m =
     (let models = getPredictiveModel type None m
      in if length models = 0 then None
         else index0 (js_sort
                (\<lambda>a b. accuracy (pm_performance b) - accuracy (pm_performance a)) models))"

definition updateModelPerformance ::
  "string \<Rightarrow> ModelPerformance \<Rightarrow> int \<Rightarrow> 'p memory \<Rightarrow> 'p memory" where
  "updateModelPerformance modelId performance now m =
     (case memory_get modelId (PREDICTIVE_MODELS_NS m) of
        None \<Rightarrow> m
      | Some model \<Rightarrow>
          m\<lparr>PREDICTIVE_MODELS_NS :=
              memory_store modelId (model\<lparr>pm_performance := performance, lastValidated := now\<rparr>)
                (PREDICTIVE_MODELS_NS m)\<rparr>)"

subsection \<open>Export and import\<close>

text \<open>
  The snapshot object. Import takes \<^verbatim>\<open>data: any\<close>, so each of its four arrays may be
  missing or null: \<open>None\<close>.
\<close>

record 'p KnowledgeBase =
  viewpointExpertise :: "'p ViewpointExpertise list option"
  arWizardKnowledge :: "'p ARWizardKnowledge list option"
  databaseAnalyses :: "'p DatabaseAnalysis list option"
  predictiveModels :: "'p PredictiveModel list option"
  exportedAt :: int

definition exportKnowledgeBase :: "int \<Rightarrow> 'p memory \<Rightarrow> 'p KnowledgeBase" where
  "exportKnowledgeBase now m =
     \<lparr>viewpointExpertise = Some (memory_query (\<lambda>_. True) (VIEWPOINT_EXPERTISE_NS m)),
      arWizardKnowledge = Some (memory_query (\<lambda>_. True) (AR_WIZARD_KNOWLEDGE_NS m)),
      databaseAnalyses = Some (memory_query (\<lambda>_. True) (DATABASE_ANALYSIS_NS m)),
      predictiveModels = Some (memory_query (\<lambda>_. True) (PREDICTIVE_MODELS_NS m)),
      exportedAt = now\<rparr>"

datatype error = TypeError

text \<open>
  \<^verbatim>\<open>for (const x of xs) body\<close>: iterating \<^verbatim>\<open>undefined\<close> or \<^verbatim>\<open>null\<close> throws a
  TypeError; \<^verbatim>\<open>xs || []\<close> replaces a missing array by the empty one.
\<close>

definition for_of :: "'a list option \<Rightarrow> ('a \<Rightarrow> 's \<Rightarrow> 's) \<Rightarrow> 's \<Rightarrow> error + 's" where
  "for_of xs body s = (case xs of None \<Rightarrow> Inl TypeError | Some ys \<Rightarrow> Inr (fold body ys s))"

definition or_empty :: "'a list option \<Rightarrow> 'a list option" where
  "or_empty xs = (case xs of None \<Rightarrow> Some [] | Some ys \<Rightarrow> Some ys)"

text \<open>The array that a loop over \<^verbatim>\<open>xs || []\<close> runs through.\<close>

abbreviation array_of :: "'a list option \<Rightarrow> 'a list" where
  "array_of xs \<equiv> (case xs of None \<Rightarrow> [] | Some ys \<Rightarrow> ys)"

definition import_expertise :: "'p ViewpointExpertise \<Rightarrow> 'p memory \<Rightarrow> 'p memory" where
  "import_expertise expertise m =
     m\<lparr>VIEWPOINT_EXPERTISE_NS := memory_store (ve_id expertise) expertise (VIEWPOINT_EXPERTISE_NS m)\<rparr>"

definition import_knowledge :: "'p ARWizardKnowledge \<Rightarrow> 'p memory \<Rightarrow> 'p memory" where
  "import_knowledge knowledge m =
     m\<lparr>AR_WIZARD_KNOWLEDGE_NS := memory_store (ak_id knowledge) knowledge (AR_WIZARD_KNOWLEDGE_NS m)\<rparr>"

definition import_analysis :: "'p DatabaseAnalysis \<Rightarrow> 'p memory \<Rightarrow> 'p memory" where
  "import_analysis analysis m =
     m\<lparr>DATABASE_ANALYSIS_NS := memory_store (da_id analysis) analysis (DATABASE_ANALYSIS_NS m)\<rparr>"

definition import_model :: "'p PredictiveModel \<Rightarrow> 'p memory \<Rightarrow> 'p memory" where
  "import_model model m =
     m\<lparr>PREDICTIVE_MODELS_NS := memory_store (pm_id model) model (PREDICTIVE_MODELS_NS m)\<rparr>"

text \<open>
  The four loops of \<^verbatim>\<open>importKnowledgeBase\<close> in their order; the \<^verbatim>\<open>catch\<close> block logs
  and rethrows, so an error of a loop is the error of the call.
\<close>

definition importKnowledgeBase :: "'p KnowledgeBase \<Rightarrow> 'p memory \<Rightarrow> error + 'p memory" where
  "importKnowledgeBase data m =
     (case for_of (or_empty (viewpointExpertise data)) import_expertise m of
        Inl e \<Rightarrow> Inl e
      | Inr m1 \<Rightarrow>
     (case for_of (or_empty (arWizardKnowledge data)) import_knowledge m1 of
        Inl e \<Rightarrow> Inl e
      | Inr m2 \<Rightarrow>
     (case for_of (or_empty (databaseAnalyses data)) import_analysis m2 of
        Inl e \<Rightarrow> Inl e
      | Inr m3 \<Rightarrow> for_of (or_empty (predictiveModels data)) import_model m3)))"

subsection \<open>Maintenance\<close>

definition cleanupExpiredAnalyses :: "int \<Rightarrow> 'p memory \<Rightarrow> 'p memory" where
  "cleanupExpiredAnalyses now m =
     (let allAnalyses = memory_query (\<lambda>_. True) (DATABASE_ANALYSIS_NS m)
      in fold (\<lambda>analysis m'.
                 if validUntil analysis \<le> now
                 then m'\<lparr>DATABASE_ANALYSIS_NS :=
                          memory_delete (da_id analysis) (DATABASE_ANALYSIS_NS m')\<rparr>
                 else m')
           allAnalyses m)"

text \<open>
  \<^verbatim>\<open>archiveOldKnowledge\<close> queries the knowledge not used for thirty days and logs how
  many there are; \<^verbatim>\<open>optimizeMemoryUsage\<close> only logs.
\<close>

definition archiveOldKnowledge :: "int \<Rightarrow> 'p memory \<Rightarrow> nat \<times> 'p memory" where
  "archiveOldKnowledge now m =
     (let thirtyDaysAgo = now - 30 * 24 * 60 * 60 * 1000;
          oldKnowledge = memory_query (\<lambda>k. lastUsed k < thirtyDaysAgo) (AR_WIZARD_KNOWLEDGE_NS m)
      in (length oldKnowledge, m))"

definition optimizeMemoryUsage :: "'p memory \<Rightarrow> 'p memory" where
  "optimizeMemoryUsage m = m"

definition performMaintenance :: "int \<Rightarrow> int \<Rightarrow> 'p memory \<Rightarrow> 'p memory" where
  "performMaintenance now1 now2 m =
     optimizeMemoryUsage (snd (archiveOldKnowledge now2 (cleanupExpiredAnalyses now1 m)))"

definition integrateExistingExpertSystems :: "'p memory \<Rightarrow> 'p memory" where
  "integrateExistingExpertSystems m = m"

subsection \<open>The public interface as operations\<close>

datatype 'p operation =
    StoreViewpointExpertise string "'p ViewpointExpertise" int
  | GetViewpointExpertise ExpertiseDomain "ExpertiseType option"
  | SearchViewpointExpertise string "ExpertiseDomain option"
  | StoreARWizardKnowledge string "'p ARWizardKnowledge" int int
  | GetARWizardKnowledge KnowledgeCategory "nat \<Rightarrow> int"
  | StoreDatabaseAnalysis string "'p DatabaseAnalysis" int
  | GetDatabaseAnalysis Database "AnalysisType option" int
  | GetLatestDatabaseAnalysis Database AnalysisType int
  | StorePredictiveModel string "'p PredictiveModel" int int
  | GetPredictiveModel ModelType "string option"
  | GetBestPredictiveModel ModelType
  | UpdateModelPerformance string ModelPerformance int
  | StoreSharedContext string 'p "int option" int
  | GetSharedContext string int
  | IntegrateExistingExpertSystems
  | ExportKnowledgeBase int
  | ImportKnowledgeBase "'p KnowledgeBase"
  | PerformMaintenance int int

text \<open>The memory after a call; the methods that only read leave it as it is.\<close>

fun exec :: "'p operation \<Rightarrow> 'p memory \<Rightarrow> 'p memory" where
  "exec (StoreViewpointExpertise newId expertise now) m =
     snd (storeViewpointExpertise newId expertise now m)"
| "exec (GetViewpointExpertise domain type) m = snd (getViewpointExpertise domain type m)"
| "exec (SearchViewpointExpertise query domain) m = m"
| "exec (StoreARWizardKnowledge newId knowledge now1 now2) m =
     snd (storeARWizardKnowledge newId knowledge now1 now2 m)"
| "exec (GetARWizardKnowledge category clock) m = snd (getARWizardKnowledge category clock m)"
| "exec (StoreDatabaseAnalysis newId analysis now) m = snd (storeDatabaseAnalysis newId analysis now m)"
| "exec (GetDatabaseAnalysis database analysisType now) m = m"
| "exec (GetLatestDatabaseAnalysis database analysisType now) m = m"
| "exec (StorePredictiveModel newId model now1 now2) m = snd (storePredictiveModel newId model now1 now2 m)"
| "exec (GetPredictiveModel type name) m = m"
| "exec (GetBestPredictiveModel type) m = m"
| "exec (UpdateModelPerformance modelId performance now) m =
     updateModelPerformance modelId performance now m"
| "exec (StoreSharedContext key context ttl now) m = storeSharedContext key context ttl now m"
| "exec (GetSharedContext key now) m = snd (getSharedContext key now m)"
| "exec IntegrateExistingExpertSystems m = integrateExistingExpertSystems m"
| "exec (ExportKnowledgeBase now) m = m"
| "exec (ImportKnowledgeBase data) m =
     (case importKnowledgeBase data m of Inl e \<Rightarrow> m | Inr m' \<Rightarrow> m')"
| "exec (PerformMaintenance now1 now2) m = performMaintenance now1 now2 m"

text \<open>
  The id that \<^verbatim>\<open>generateId\<close> returns to a store method is new in the namespace it is
  used in.
\<close>

fun fresh_id :: "'p operation \<Rightarrow> 'p memory \<Rightarrow> bool" where
  "fresh_id (StoreViewpointExpertise newId expertise now) m =
     (newId \<notin> set (map fst (VIEWPOINT_EXPERTISE_NS m)))"
| "fresh_id (StoreARWizardKnowledge newId knowledge now1 now2) m =
     (newId \<notin> set (map fst (AR_WIZARD_KNOWLEDGE_NS m)))"
| "fresh_id (StoreDatabaseAnalysis newId analysis now) m =
     (newId \<notin> set (map fst (DATABASE_ANALYSIS_NS m)))"
| "fresh_id (StorePredictiveModel newId model now1 now2) m =
     (newId \<notin> set (map fst (PREDICTIVE_MODELS_NS m)))"
| "fresh_id _ m = True"

text \<open>The operation is an import whose snapshot has an expertise record with the id \<open>k\<close>.\<close>

fun imports_id :: "'p operation \<Rightarrow> string \<Rightarrow> bool" where
  "imports_id (ImportKnowledgeBase data) k =
     (k \<in> set (map ve_id (array_of (viewpointExpertise data))))"
| "imports_id _ k = False"

subsection \<open>The invariant of the namespaces\<close>

text \<open>
  Every method writes a record under the record's own id, and a namespace holds one
  entry for a key.
\<close>

definition keyed_by :: "('v \<Rightarrow> string) \<Rightarrow> 'v namespace \<Rightarrow> bool" where
  "keyed_by ident ns = (distinct (map fst ns) \<and> (\<forall>(k, v) \<in> set ns. ident v = k))"

definition consistent :: "'p memory \<Rightarrow> bool" where
  "consistent m =
     (keyed_by ve_id (VIEWPOINT_EXPERTISE_NS m) \<and> keyed_by ak_id (AR_WIZARD_KNOWLEDGE_NS m) \<and>
      keyed_by da_id (DATABASE_ANALYSIS_NS m) \<and> keyed_by pm_id (PREDICTIVE_MODELS_NS m) \<and>
      distinct (map fst (SHARED_CONTEXT_NS m)))"

text \<open>The memories that calls of the public interface lead to from the empty memory.\<close>

inductive reachable :: "'p memory \<Rightarrow> bool" where
  initial: "reachable empty_memory"
| call: "reachable m \<Longrightarrow> reachable (exec operation m)"

text \<open>The ids of the analyses that a sweep at time \<open>now\<close> deletes, among \<open>as\<close>.\<close>

definition expired_ids :: "int \<Rightarrow> 'p DatabaseAnalysis list \<Rightarrow> string set" where
  "expired_ids now as = set (map da_id (filter (\<lambda>a. validUntil a \<le> now) as))"

subsection \<open>Sample records\<close>

text \<open>Records with a payload of type \<open>nat\<close>, for the worked instances below.\<close>

definition sample_expertise :: "string \<Rightarrow> ExpertiseDomain \<Rightarrow> int \<Rightarrow> nat ViewpointExpertise" where
  "sample_expertise i d n =
     \<lparr>ve_id = i, ve_type = business_rule, ve_domain = d, ve_content = 0, ve_confidence = 1,
      ve_lastUpdated = 0, ve_source = ''manual'', ve_validated = True, usageCount = n\<rparr>"

definition sample_knowledge :: "string \<Rightarrow> nat ARWizardKnowledge" where
  "sample_knowledge i =
     \<lparr>ak_id = i, ak_category = kc_billing_rule, ak_description = ''rule'', ak_implementation = 0,
      ak_accuracy = None, ak_performance = None, ak_dependencies = [], createdAt = 0,
      lastUsed = 0\<rparr>"

definition sample_analysis :: "string \<Rightarrow> int \<Rightarrow> int \<Rightarrow> nat DatabaseAnalysis" where
  "sample_analysis i t v =
     \<lparr>da_id = i, da_database = kls, da_analysisType = data_quality, da_results = 0,
      da_metrics = \<lparr>dataVolume = 1, qualityScore = 1, performanceScore = 1,
                    completenessScore = 1\<rparr>,
      da_recommendations = [], analyzedAt = t, validUntil = v\<rparr>"

definition sample_model :: "string \<Rightarrow> ModelType \<Rightarrow> real \<Rightarrow> nat PredictiveModel" where
  "sample_model i ty acc =
     \<lparr>pm_id = i, pm_name = ''m'', pm_type = ty, pm_algorithm = ''gbm'', pm_features = [],
      pm_trainingData = \<lparr>td_source = ''kls'', td_size = 10, td_dateRange_start = 0,
                          td_dateRange_end = 1\<rparr>,
      pm_performance = \<lparr>accuracy = acc, precision = 1, recall = 1, f1Score = 1\<rparr>,
      pm_model = 0, pm_version = ''1'', trainedAt = 0, lastValidated = 0\<rparr>"

section \<open>Properties\<close>

subsection \<open>The memory primitives\<close>

lemma memory_get_store_same: "memory_get k (memory_store k v ns) = Some v"
  by (simp add: memory_get_def memory_store_def update_conv')

lemma memory_get_store_other:
  "k' \<noteq> k \<Longrightarrow> memory_get k' (memory_store k v ns) = memory_get k' ns"
  by (simp add: memory_get_def memory_store_def update_conv')

lemma memory_get_delete_same: "memory_get k (memory_delete k ns) = None"
  by (simp add: memory_get_def memory_delete_def delete_conv')

lemma memory_get_delete_other:
  "k' \<noteq> k \<Longrightarrow> memory_get k' (memory_delete k ns) = memory_get k' ns"
  by (simp add: memory_get_def memory_delete_def delete_conv')

lemma memory_delete_filter: "memory_delete k ns = filter (\<lambda>p. fst p \<noteq> k) ns"
  by (induction ns) (auto simp: memory_delete_def)

subsection \<open>Shared context and its time to live\<close>

text \<open>
  Claim C1, as the code has it. \<^verbatim>\<open>storeSharedContext(key, data, ttl)\<close> stores the wrapper
  \<^verbatim>\<open>{data, timestamp: now, ttl}\<close>, where the stored ttl is the argument when it is given
  and not 0, and 3600000 when it is omitted or 0. For an entry \<open>r\<close> stored under the key,
  \<^verbatim>\<open>getSharedContext(key)\<close> at time \<open>t1\<close> returns null and deletes the entry when
  \<open>t1 - timestamp > ttl\<close>, and otherwise returns the data and changes nothing; other
  keys are never touched. After a store with ttl 1000 and 1001 ms, the read returns
  null and the raw entry is gone.
\<close>

theorem shared_context_ttl_contract:
  "memory_get key (SHARED_CONTEXT_NS (storeSharedContext key d ttl t0 m)) =
     Some \<lparr>sc_data = d, sc_timestamp = t0,
           sc_ttl = (case ttl of None \<Rightarrow> 3600000 | Some t \<Rightarrow> if t = 0 then 3600000 else t)\<rparr>
   \<and> (memory_get key (SHARED_CONTEXT_NS m) = Some r \<longrightarrow>
        fst (getSharedContext key t1 m) =
          (if t1 - sc_timestamp r > sc_ttl r then None else Some (sc_data r))
      \<and> memory_get key (SHARED_CONTEXT_NS (snd (getSharedContext key t1 m))) =
          (if t1 - sc_timestamp r > sc_ttl r then None else Some r)
      \<and> (t1 - sc_timestamp r \<le> sc_ttl r \<longrightarrow> snd (getSharedContext key t1 m) = m)
      \<and> (\<forall>k'. k' \<noteq> key \<longrightarrow>
            memory_get k' (SHARED_CONTEXT_NS (snd (getSharedContext key t1 m))) =
            memory_get k' (SHARED_CONTEXT_NS m)))
   \<and> fst (getSharedContext key (t0 + 1001) (storeSharedContext key d (Some 1000) t0 m)) = None
   \<and> memory_get key (SHARED_CONTEXT_NS
        (snd (getSharedContext key (t0 + 1001) (storeSharedContext key d (Some 1000) t0 m)))) =
       None"
  by (simp add: storeSharedContext_def getSharedContext_def ttl_or_default_def
      memory_get_store_same memory_get_delete_same memory_get_delete_other)

text \<open>
  An instance: an entry stored at time 5000 with ttl 1000 is read back at 5500, and is
  gone at 6001.
\<close>

theorem shared_context_ttl_contract_witness:
  "memory_get ''k'' (SHARED_CONTEXT_NS (storeSharedContext ''k'' (7::nat) (Some 1000) 5000 empty_memory)) =
     Some \<lparr>sc_data = 7, sc_timestamp = 5000, sc_ttl = 1000\<rparr>
   \<and> fst (getSharedContext ''k'' 5500
        (storeSharedContext ''k'' (7::nat) (Some 1000) 5000 empty_memory)) = Some 7
   \<and> fst (getSharedContext ''k'' 6001
        (storeSharedContext ''k'' (7::nat) (Some 1000) 5000 empty_memory)) = None
   \<and> memory_get ''k'' (SHARED_CONTEXT_NS (snd (getSharedContext ''k'' 6001
        (storeSharedContext ''k'' (7::nat) (Some 1000) 5000 empty_memory)))) = None"
  using shared_context_ttl_contract [where key = "''k''" and d = "7::nat" and ttl = "Some 1000"
      and ?t0.0 = 5000 and m = empty_memory and ?t1.0 = 0]
    shared_context_ttl_contract [where key = "''k''" and d = "7::nat" and ttl = "Some 1000"
      and ?t0.0 = 5000
      and m = "storeSharedContext ''k'' (7::nat) (Some 1000) 5000 empty_memory"
      and r = "\<lparr>sc_data = 7, sc_timestamp = 5000, sc_ttl = 1000\<rparr>" and ?t1.0 = 5500]
  by simp

text \<open>
  The claim as written gives ttl 0 to a store with the argument 0. The code stores
  3600000: the entry outlives a read one millisecond later, although
  \<open>now - timestamp = 1\<close> exceeds 0.
\<close>

theorem shared_context_zero_ttl_counterexample:
  "memory_get ''k'' (SHARED_CONTEXT_NS (storeSharedContext ''k'' (7::nat) (Some 0) 5000 empty_memory))
     \<noteq> Some \<lparr>sc_data = 7, sc_timestamp = 5000, sc_ttl = 0\<rparr>
   \<and> fst (getSharedContext ''k'' 5001 (storeSharedContext ''k'' (7::nat) (Some 0) 5000 empty_memory))
     = Some 7"
  by (simp add: storeSharedContext_def getSharedContext_def ttl_or_default_def empty_memory_def
      memory_get_def memory_store_def)

subsection \<open>The sweep of expired analyses\<close>

text \<open>
  The loop of \<^verbatim>\<open>cleanupExpiredAnalyses\<close> only changes the analysis namespace, and what
  it leaves is the entries whose key is not the id of an expired analysis.
\<close>

lemma cleanup_fold_fields:
  "fold (\<lambda>analysis m'. if validUntil analysis \<le> now
           then m'\<lparr>DATABASE_ANALYSIS_NS :=
                    memory_delete (da_id analysis) (DATABASE_ANALYSIS_NS m')\<rparr>
           else m') as m =
   m\<lparr>DATABASE_ANALYSIS_NS :=
       fold (\<lambda>analysis ns. if validUntil analysis \<le> now
                            then memory_delete (da_id analysis) ns else ns)
         as (DATABASE_ANALYSIS_NS m)\<rparr>"
  by (induction as arbitrary: m) simp_all

lemma sweep_fold_filter:
  "fold (\<lambda>analysis ns. if validUntil analysis \<le> now
                        then memory_delete (da_id analysis) ns else ns) as ns =
   filter (\<lambda>p. fst p \<notin> expired_ids now as) ns"
proof (induction as arbitrary: ns)
  case Nil
  then show ?case by (simp add: expired_ids_def)
next
  case (Cons a as)
  show ?case
  proof (cases "validUntil a \<le> now")
    case True
    then have "expired_ids now (a # as) = insert (da_id a) (expired_ids now as)"
      by (simp add: expired_ids_def)
    with True show ?thesis
      by (simp add: Cons.IH memory_delete_filter conj_commute)
  next
    case False
    then have "expired_ids now (a # as) = expired_ids now as"
      by (simp add: expired_ids_def)
    with False show ?thesis
      by (simp add: Cons.IH)
  qed
qed

lemma cleanup_eq:
  "cleanupExpiredAnalyses now m =
   m\<lparr>DATABASE_ANALYSIS_NS :=
       filter (\<lambda>p. fst p \<notin> expired_ids now (map snd (DATABASE_ANALYSIS_NS m)))
         (DATABASE_ANALYSIS_NS m)\<rparr>"
  by (simp add: cleanupExpiredAnalyses_def memory_query_def cleanup_fold_fields
      sweep_fold_filter)

lemma expired_ids_mono: "set as \<subseteq> set bs \<Longrightarrow> expired_ids now as \<subseteq> expired_ids now bs"
  by (auto simp: expired_ids_def)

lemma cleanup_twice:
  "cleanupExpiredAnalyses now (cleanupExpiredAnalyses now m) = cleanupExpiredAnalyses now m"
proof -
  let ?ns = "DATABASE_ANALYSIS_NS m"
  let ?ns' = "filter (\<lambda>p. fst p \<notin> expired_ids now (map snd ?ns)) ?ns"
  have "expired_ids now (map snd ?ns') \<subseteq> expired_ids now (map snd ?ns)"
    by (rule expired_ids_mono) auto
  then have "filter (\<lambda>p. fst p \<notin> expired_ids now (map snd ?ns')) ?ns' = ?ns'"
    unfolding filter_id_conv by auto
  then show ?thesis
    by (simp add: cleanup_eq)
qed

text \<open>
  Claim C2. \<^verbatim>\<open>getDatabaseAnalysis\<close> returns no analysis whose \<^verbatim>\<open>validUntil\<close> is at or
  before the current time, for every database and optional analysis type; and in a
  namespace where each entry is stored under its record's id, no entry with
  \<open>validUntil \<le> now\<close> is left after \<^verbatim>\<open>cleanupExpiredAnalyses\<close>.
\<close>

theorem freshness_filtering:
  "(\<forall>a \<in> set (getDatabaseAnalysis database analysisType now m). \<not> validUntil a \<le> now)
   \<and> (keyed_by da_id (DATABASE_ANALYSIS_NS m) \<longrightarrow>
        (\<forall>(k, a) \<in> set (DATABASE_ANALYSIS_NS (cleanupExpiredAnalyses now m)).
            \<not> validUntil a \<le> now))"
proof (intro conjI impI)
  show "\<forall>a \<in> set (getDatabaseAnalysis database analysisType now m). \<not> validUntil a \<le> now"
    by (simp add: getDatabaseAnalysis_def)
next
  assume inv: "keyed_by da_id (DATABASE_ANALYSIS_NS m)"
  show "\<forall>(k, a) \<in> set (DATABASE_ANALYSIS_NS (cleanupExpiredAnalyses now m)).
          \<not> validUntil a \<le> now"
  proof (clarify)
    fix k a
    assume mem: "(k, a) \<in> set (DATABASE_ANALYSIS_NS (cleanupExpiredAnalyses now m))"
      and expired: "validUntil a \<le> now"
    from mem have in_ns: "(k, a) \<in> set (DATABASE_ANALYSIS_NS m)"
      and kept: "k \<notin> expired_ids now (map snd (DATABASE_ANALYSIS_NS m))"
      by (simp_all add: cleanup_eq)
    from inv in_ns have "da_id a = k"
      by (auto simp: keyed_by_def)
    moreover from in_ns expired
    have "da_id a \<in> expired_ids now (map snd (DATABASE_ANALYSIS_NS m))"
      by (force simp: expired_ids_def)
    ultimately show False using kept by blast
  qed
qed

text \<open>
  An instance: of an analysis valid until 5 and one valid until 50, at time 10 the
  accessor returns the second only, and the sweep leaves the second only.
\<close>

theorem freshness_filtering_witness:
  "keyed_by da_id [(''a1'', sample_analysis ''a1'' 0 5), (''a2'', sample_analysis ''a2'' 1 50)]
   \<and> getDatabaseAnalysis kls None 10
       (empty_memory\<lparr>DATABASE_ANALYSIS_NS :=
          [(''a1'', sample_analysis ''a1'' 0 5), (''a2'', sample_analysis ''a2'' 1 50)]\<rparr>) =
     [sample_analysis ''a2'' 1 50]
   \<and> DATABASE_ANALYSIS_NS (cleanupExpiredAnalyses 10
       (empty_memory\<lparr>DATABASE_ANALYSIS_NS :=
          [(''a1'', sample_analysis ''a1'' 0 5), (''a2'', sample_analysis ''a2'' 1 50)]\<rparr>)) =
     [(''a2'', sample_analysis ''a2'' 1 50)]
   \<and> \<not> validUntil (sample_analysis ''a2'' 1 50) \<le> 10"
proof -
  let ?ns = "[(''a1'', sample_analysis ''a1'' 0 5), (''a2'', sample_analysis ''a2'' 1 50)]"
  let ?m = "empty_memory\<lparr>DATABASE_ANALYSIS_NS := ?ns\<rparr>"
  have inv: "keyed_by da_id ?ns"
    by (simp add: keyed_by_def sample_analysis_def)
  have returned: "getDatabaseAnalysis kls None 10 ?m = [sample_analysis ''a2'' 1 50]"
    by (simp add: getDatabaseAnalysis_def memory_query_def analysis_criteria_def
        sample_analysis_def)
  have swept: "DATABASE_ANALYSIS_NS (cleanupExpiredAnalyses 10 ?m) =
      [(''a2'', sample_analysis ''a2'' 1 50)]"
    by (simp add: cleanup_eq expired_ids_def sample_analysis_def)
  from inv have "keyed_by da_id (DATABASE_ANALYSIS_NS ?m)"
    by simp
  with freshness_filtering [of kls None 10 ?m]
  have "\<forall>(k, a) \<in> set (DATABASE_ANALYSIS_NS (cleanupExpiredAnalyses 10 ?m)).
      \<not> validUntil a \<le> 10"
    by blast
  then have "\<not> validUntil (sample_analysis ''a2'' 1 50) \<le> 10"
    unfolding swept by simp
  with inv returned swept show ?thesis by blast
qed

text \<open>
  Claim C9, as the code has it. For a fixed current time, a second run of
  \<^verbatim>\<open>cleanupExpiredAnalyses\<close> changes nothing, and any positive number of runs ends in
  the state that one run ends in.
\<close>

theorem sweep_idempotent:
  "cleanupExpiredAnalyses now (cleanupExpiredAnalyses now m) = cleanupExpiredAnalyses now m
   \<and> (cleanupExpiredAnalyses now ^^ Suc n) m = cleanupExpiredAnalyses now m"
proof -
  have "(cleanupExpiredAnalyses now ^^ Suc n) m = cleanupExpiredAnalyses now m"
  proof (induction n)
    case 0
    then show ?case by simp
  next
    case (Suc n)
    then show ?case using cleanup_twice [of now m] by simp
  qed
  with cleanup_twice [of now m] show ?thesis by blast
qed

text \<open>An instance: three runs at time 10 leave what one run leaves, the live analysis.\<close>

theorem sweep_idempotent_witness:
  "(cleanupExpiredAnalyses 10 ^^ 3)
     (empty_memory\<lparr>DATABASE_ANALYSIS_NS :=
        [(''a1'', sample_analysis ''a1'' 0 5), (''a2'', sample_analysis ''a2'' 1 50)]\<rparr>) =
   empty_memory\<lparr>DATABASE_ANALYSIS_NS := [(''a2'', sample_analysis ''a2'' 1 50)]\<rparr>"
  using sweep_idempotent [of 10
      "empty_memory\<lparr>DATABASE_ANALYSIS_NS :=
         [(''a1'', sample_analysis ''a1'' 0 5), (''a2'', sample_analysis ''a2'' 1 50)]\<rparr>" 2]
  by (simp add: numeral_3_eq_3 cleanup_eq expired_ids_def sample_analysis_def)

text \<open>
  Zero runs and one run do not end in the same state when an analysis has expired: the
  analysis stored with \<open>validUntil = 5\<close> is in the memory before the sweep at time 10,
  and not after it.
\<close>

theorem sweep_zero_runs_counterexample:
  "(cleanupExpiredAnalyses 10 ^^ 0)
     (snd (storeDatabaseAnalysis ''a1'' (sample_analysis ''x'' 0 5) 1 empty_memory)) \<noteq>
   (cleanupExpiredAnalyses 10 ^^ 1)
     (snd (storeDatabaseAnalysis ''a1'' (sample_analysis ''x'' 0 5) 1 empty_memory))"
  by (simp add: cleanup_eq expired_ids_def storeDatabaseAnalysis_def sample_analysis_def
      empty_memory_def memory_store_def)

subsection \<open>Sorting and selection\<close>

lemma js_sort_Cons: "js_sort cmp (x # xs) = insert_by cmp x (js_sort cmp xs)"
  by (simp add: js_sort_def)

lemma set_insert_by: "set (insert_by cmp x ys) = insert x (set ys)"
  by (induction ys) auto

lemma set_js_sort: "set (js_sort cmp xs) = set xs"
  by (induction xs) (simp_all add: js_sort_Cons set_insert_by, simp add: js_sort_def)

lemma length_insert_by: "length (insert_by cmp x ys) = Suc (length ys)"
  by (induction ys) auto

lemma length_js_sort: "length (js_sort cmp xs) = length xs"
  by (induction xs) (simp_all add: js_sort_Cons length_insert_by, simp add: js_sort_def)

lemma js_sort_Nil_iff: "js_sort cmp xs = [] \<longleftrightarrow> xs = []"
  using length_js_sort [of cmp xs] by (cases xs) auto

lemma index0_mem: "index0 xs = Some x \<Longrightarrow> x \<in> set xs"
  by (auto simp: index0_def split: list.splits)

lemma index0_None: "index0 xs = None \<longleftrightarrow> xs = []"
  by (auto simp: index0_def split: list.splits)

text \<open>
  With the comparator \<^verbatim>\<open>(a, b) => key(b) - key(a)\<close> the sorted array is descending in
  the key, and its first element has a greatest key.
\<close>

lemma sorted_insert_by:
  fixes key :: "'a \<Rightarrow> 'n::linordered_idom"
  shows "sorted_wrt (\<lambda>a b. key b \<le> key a) ys \<Longrightarrow>
         sorted_wrt (\<lambda>a b. key b \<le> key a) (insert_by (\<lambda>a b. key b - key a) x ys)"
  by (induction ys) (auto simp: set_insert_by)

lemma sorted_js_sort:
  fixes key :: "'a \<Rightarrow> 'n::linordered_idom"
  shows "sorted_wrt (\<lambda>a b. key b \<le> key a) (js_sort (\<lambda>a b. key b - key a) xs)"
  by (induction xs) (simp_all add: js_sort_Cons sorted_insert_by, simp add: js_sort_def)

lemma index0_js_sort_desc:
  fixes key :: "'a \<Rightarrow> 'n::linordered_idom"
  assumes "index0 (js_sort (\<lambda>a b. key b - key a) xs) = Some best"
  shows "\<forall>x \<in> set xs. key x \<le> key best"
  using assms
proof (induction xs arbitrary: best)
  case Nil
  then show ?case by simp
next
  case (Cons x xs)
  let ?s = "js_sort (\<lambda>a b. key b - key a) xs"
  show ?case
  proof (cases ?s)
    case Nil
    then have "xs = []"
      by (simp add: js_sort_Nil_iff)
    with Cons.prems show ?thesis
      by (simp add: js_sort_def index0_def)
  next
    case (Cons y ys)
    then have hd: "index0 ?s = Some y" by (simp add: index0_def)
    from Cons.IH [OF hd] have ymax: "\<forall>x \<in> set xs. key x \<le> key y" .
    from Cons.prems Cons have "best = (if key y - key x \<le> 0 then x else y)"
      by (simp add: js_sort_Cons index0_def split: if_splits)
    with ymax show ?thesis by (auto split: if_splits)
  qed
qed

text \<open>
  Claim C4. \<^verbatim>\<open>getBestPredictiveModel(type)\<close> returns null exactly when no model of
  the type is stored, and otherwise a stored model of the type whose
  \<^verbatim>\<open>performance.accuracy\<close> is greatest among the stored models of the type.
\<close>

theorem best_model_selection:
  "(getBestPredictiveModel type m = None \<longleftrightarrow>
      (\<forall>model \<in> snd ` set (PREDICTIVE_MODELS_NS m). pm_type model \<noteq> type))
   \<and> (\<forall>best. getBestPredictiveModel type m = Some best \<longrightarrow>
        best \<in> snd ` set (PREDICTIVE_MODELS_NS m) \<and> pm_type best = type \<and>
        (\<forall>model \<in> snd ` set (PREDICTIVE_MODELS_NS m). pm_type model = type \<longrightarrow>
           accuracy (pm_performance model) \<le> accuracy (pm_performance best)))"
proof -
  let ?models = "getPredictiveModel type None m"
  let ?sorted =
    "js_sort (\<lambda>a b. accuracy (pm_performance b) - accuracy (pm_performance a)) ?models"
  have models: "set ?models = {model \<in> snd ` set (PREDICTIVE_MODELS_NS m). pm_type model = type}"
    by (auto simp: getPredictiveModel_def memory_query_def model_criteria_def)
  have best: "getBestPredictiveModel type m = (if ?models = [] then None else index0 ?sorted)"
    by (simp add: getBestPredictiveModel_def Let_def)
  have none: "getBestPredictiveModel type m = None \<longleftrightarrow> ?models = []"
    by (simp add: best index0_None js_sort_Nil_iff)
  have "?models = [] \<longleftrightarrow> set ?models = {}" by simp
  also have "\<dots> \<longleftrightarrow>
      (\<forall>model \<in> snd ` set (PREDICTIVE_MODELS_NS m). pm_type model \<noteq> type)"
    unfolding models by blast
  finally have first: "getBestPredictiveModel type m = None \<longleftrightarrow>
      (\<forall>model \<in> snd ` set (PREDICTIVE_MODELS_NS m). pm_type model \<noteq> type)"
    using none by simp
  have second: "best \<in> snd ` set (PREDICTIVE_MODELS_NS m) \<and> pm_type best = type \<and>
        (\<forall>model \<in> snd ` set (PREDICTIVE_MODELS_NS m). pm_type model = type \<longrightarrow>
           accuracy (pm_performance model) \<le> accuracy (pm_performance best))"
    if "getBestPredictiveModel type m = Some best" for best
  proof -
    from that have hd: "index0 ?sorted = Some best"
      by (simp add: best split: if_splits)
    then have "best \<in> set ?models"
      using index0_mem set_js_sort by fastforce
    moreover from index0_js_sort_desc [OF hd]
    have "\<forall>x \<in> set ?models. accuracy (pm_performance x) \<le> accuracy (pm_performance best)" .
    ultimately show ?thesis
      unfolding models by blast
  qed
  from first second show ?thesis by blast
qed

text \<open>
  An instance: of the models A (accuracy 0.80) and B (accuracy 0.92) of one type, B is
  returned, and the theorem bounds the accuracy of A by that of B.
\<close>

theorem best_model_selection_witness:
  "getBestPredictiveModel cost_analysis
     (empty_memory\<lparr>PREDICTIVE_MODELS_NS :=
        [(''A'', sample_model ''A'' cost_analysis 0.80),
         (''B'', sample_model ''B'' cost_analysis 0.92)]\<rparr>) =
     Some (sample_model ''B'' cost_analysis 0.92)
   \<and> accuracy (pm_performance (sample_model ''A'' cost_analysis 0.80)) \<le>
       accuracy (pm_performance (sample_model ''B'' cost_analysis 0.92))"
proof -
  let ?m = "empty_memory\<lparr>PREDICTIVE_MODELS_NS :=
        [(''A'', sample_model ''A'' cost_analysis 0.80),
         (''B'', sample_model ''B'' cost_analysis 0.92)]\<rparr>"
  have best: "getBestPredictiveModel cost_analysis ?m = Some (sample_model ''B'' cost_analysis 0.92)"
    by (simp add: getBestPredictiveModel_def getPredictiveModel_def memory_query_def
        model_criteria_def js_sort_def index0_def sample_model_def)
  have stored: "sample_model ''A'' cost_analysis 0.80 \<in> snd ` set (PREDICTIVE_MODELS_NS ?m)"
    by simp
  have "pm_type (sample_model ''A'' cost_analysis 0.80) = cost_analysis"
    by (simp add: sample_model_def)
  with best_model_selection [of cost_analysis ?m] best stored
  have "accuracy (pm_performance (sample_model ''A'' cost_analysis 0.80)) \<le>
       accuracy (pm_performance (sample_model ''B'' cost_analysis 0.92))"
    by blast
  with best show ?thesis by blast
qed

text \<open>
  Claim C5. The live matching analyses are the stored analyses of the database and the
  analysis type with \<open>validUntil > now\<close>. \<^verbatim>\<open>getLatestDatabaseAnalysis\<close> returns null
  exactly when there is none, and otherwise one of them whose \<^verbatim>\<open>analyzedAt\<close> is
  greatest among them.
\<close>

theorem latest_analysis_selection:
  "set (getDatabaseAnalysis database (Some analysisType) now m) =
     {a \<in> snd ` set (DATABASE_ANALYSIS_NS m).
        da_database a = database \<and> da_analysisType a = analysisType \<and> now < validUntil a}
   \<and> (getLatestDatabaseAnalysis database analysisType now m = None \<longleftrightarrow>
        getDatabaseAnalysis database (Some analysisType) now m = [])
   \<and> (\<forall>latest. getLatestDatabaseAnalysis database analysisType now m = Some latest \<longrightarrow>
        latest \<in> set (getDatabaseAnalysis database (Some analysisType) now m) \<and>
        (\<forall>a \<in> set (getDatabaseAnalysis database (Some analysisType) now m).
           analyzedAt a \<le> analyzedAt latest))"
proof -
  let ?live = "getDatabaseAnalysis database (Some analysisType) now m"
  let ?sorted = "js_sort (\<lambda>a b. analyzedAt b - analyzedAt a) ?live"
  have live: "set ?live =
     {a \<in> snd ` set (DATABASE_ANALYSIS_NS m).
        da_database a = database \<and> da_analysisType a = analysisType \<and> now < validUntil a}"
    by (auto simp: getDatabaseAnalysis_def memory_query_def analysis_criteria_def)
  have latest: "getLatestDatabaseAnalysis database analysisType now m =
      (if ?live = [] then None else index0 ?sorted)"
    by (simp add: getLatestDatabaseAnalysis_def Let_def)
  have none: "getLatestDatabaseAnalysis database analysisType now m = None \<longleftrightarrow> ?live = []"
    by (simp add: latest index0_None js_sort_Nil_iff)
  have some: "l \<in> set ?live \<and> (\<forall>a \<in> set ?live. analyzedAt a \<le> analyzedAt l)"
    if "getLatestDatabaseAnalysis database analysisType now m = Some l" for l
  proof -
    from that have hd: "index0 ?sorted = Some l"
      by (simp add: latest split: if_splits)
    then have "l \<in> set ?live"
      using index0_mem set_js_sort by fastforce
    with index0_js_sort_desc [OF hd] show ?thesis by blast
  qed
  from live none some show ?thesis by blast
qed

text \<open>
  An instance: of X (analysed at 1), Y (analysed at 2) and an expired Z (analysed at 3,
  valid until 5), at time 10 the latest analysis is Y, and the theorem bounds the
  time of X by that of Y.
\<close>

theorem latest_analysis_selection_witness:
  "getLatestDatabaseAnalysis kls data_quality 10
     (empty_memory\<lparr>DATABASE_ANALYSIS_NS :=
        [(''X'', sample_analysis ''X'' 1 50), (''Y'', sample_analysis ''Y'' 2 50),
         (''Z'', sample_analysis ''Z'' 3 5)]\<rparr>) = Some (sample_analysis ''Y'' 2 50)
   \<and> analyzedAt (sample_analysis ''X'' 1 50) \<le> analyzedAt (sample_analysis ''Y'' 2 50)"
proof -
  let ?m = "empty_memory\<lparr>DATABASE_ANALYSIS_NS :=
        [(''X'', sample_analysis ''X'' 1 50), (''Y'', sample_analysis ''Y'' 2 50),
         (''Z'', sample_analysis ''Z'' 3 5)]\<rparr>"
  have latest: "getLatestDatabaseAnalysis kls data_quality 10 ?m =
      Some (sample_analysis ''Y'' 2 50)"
    by (simp add: getLatestDatabaseAnalysis_def getDatabaseAnalysis_def memory_query_def
        analysis_criteria_def js_sort_def index0_def sample_analysis_def)
  have live: "sample_analysis ''X'' 1 50 \<in> set (getDatabaseAnalysis kls (Some data_quality) 10 ?m)"
    by (simp add: getDatabaseAnalysis_def memory_query_def analysis_criteria_def
        sample_analysis_def)
  from latest_analysis_selection [of kls data_quality 10 ?m] latest live
  have "analyzedAt (sample_analysis ''X'' 1 50) \<le> analyzedAt (sample_analysis ''Y'' 2 50)"
    by blast
  with latest show ?thesis by blast
qed

subsection \<open>Reading expertise counts the use\<close>

lemma js_increment_exact: "- (2 ^ 53) \<le> n \<Longrightarrow> n < 2 ^ 53 \<Longrightarrow> js_increment n = n + 1"
  by (simp add: js_increment_def)

lemma js_increment_ge: "n \<le> js_increment n"
  by (simp add: js_increment_def)

lemma usage_loop_eq:
  "usage_loop es ns =
     (map (\<lambda>e. e\<lparr>usageCount := js_increment (usageCount e)\<rparr>) es,
      fold (\<lambda>e. memory_store (ve_id e) (e\<lparr>usageCount := js_increment (usageCount e)\<rparr>)) es ns)"
  by (induction es arbitrary: ns) (simp_all add: Let_def)

lemma update_append_notin:
  "k \<notin> fst ` set pre \<Longrightarrow> AList.update k v (pre @ ys) = pre @ AList.update k v ys"
  by (induction pre) auto

text \<open>
  In a namespace keyed by the records' ids, the stores of the loop rewrite the matching
  entries in place: \<open>pre\<close> is the part of the namespace that the loop has passed.
\<close>

lemma usage_fold_in_place:
  assumes "distinct (map fst (pre @ post))" and "\<forall>(k, e) \<in> set post. ve_id e = k"
  shows "fold (\<lambda>e. memory_store (ve_id e) (e\<lparr>usageCount := js_increment (usageCount e)\<rparr>))
           (filter P (map snd post)) (pre @ post) =
         pre @ map (\<lambda>(k, e). (k, if P e then e\<lparr>usageCount := js_increment (usageCount e)\<rparr>
                                  else e)) post"
  using assms
proof (induction post arbitrary: pre)
  case Nil
  then show ?case by simp
next
  case (Cons p post)
  obtain k e where p: "p = (k, e)" by (cases p)
  with Cons.prems have key: "ve_id e = k" and notin: "k \<notin> fst ` set pre"
    and rest: "\<forall>(k, e) \<in> set post. ve_id e = k"
    by auto
  show ?case
  proof (cases "P e")
    case True
    let ?e' = "e\<lparr>usageCount := js_increment (usageCount e)\<rparr>"
    have "memory_store (ve_id e) ?e' (pre @ (k, e) # post) = (pre @ [(k, ?e')]) @ post"
      using notin key by (simp add: memory_store_def update_append_notin)
    moreover have "distinct (map fst ((pre @ [(k, ?e')]) @ post))"
      using Cons.prems(1) p by simp
    ultimately show ?thesis
      using Cons.IH [of "pre @ [(k, ?e')]"] rest True p by simp
  next
    case False
    have "distinct (map fst ((pre @ [(k, e)]) @ post))"
      using Cons.prems(1) p by simp
    then show ?thesis
      using Cons.IH [of "pre @ [(k, e)]"] rest False p by simp
  qed
qed

lemma getViewpointExpertise_eq:
  assumes "keyed_by ve_id (VIEWPOINT_EXPERTISE_NS m)"
  shows "getViewpointExpertise domain type m =
     (map (\<lambda>e. e\<lparr>usageCount := js_increment (usageCount e)\<rparr>)
        (memory_query (expertise_criteria domain type) (VIEWPOINT_EXPERTISE_NS m)),
      m\<lparr>VIEWPOINT_EXPERTISE_NS :=
          map (\<lambda>(k, e). (k, if expertise_criteria domain type e
                             then e\<lparr>usageCount := js_increment (usageCount e)\<rparr> else e))
            (VIEWPOINT_EXPERTISE_NS m)\<rparr>)"
proof -
  from assms have "distinct (map fst ([] @ VIEWPOINT_EXPERTISE_NS m))"
    and "\<forall>(k, e) \<in> set (VIEWPOINT_EXPERTISE_NS m). ve_id e = k"
    by (simp_all add: keyed_by_def)
  from usage_fold_in_place [OF this, of "expertise_criteria domain type"]
  show ?thesis
    by (simp add: getViewpointExpertise_def usage_loop_eq memory_query_def)
qed

lemma criteria_ignores_usageCount:
  "expertise_criteria domain type (e\<lparr>usageCount := n\<rparr>) = expertise_criteria domain type e"
  by (simp add: expertise_criteria_def split: option.splits)

lemma query_map_usage:
  "memory_query (expertise_criteria domain type)
     (map (\<lambda>(k, e). (k, if expertise_criteria domain type e
                        then e\<lparr>usageCount := js_increment (usageCount e)\<rparr> else e)) ns) =
   map (\<lambda>e. e\<lparr>usageCount := js_increment (usageCount e)\<rparr>)
     (memory_query (expertise_criteria domain type) ns)"
  by (induction ns) (auto simp: memory_query_def criteria_ignores_usageCount)

lemma keyed_by_map_usage:
  "keyed_by ve_id ns \<Longrightarrow>
   keyed_by ve_id
     (map (\<lambda>(k, e). (k, if P e then e\<lparr>usageCount := js_increment (usageCount e)\<rparr> else e)) ns)"
  by (induction ns) (auto simp: keyed_by_def image_iff)

lemma memory_get_map_usage:
  "memory_get k
     (map (\<lambda>(k, e). (k, if P e then e\<lparr>usageCount := js_increment (usageCount e)\<rparr> else e)) ns) =
   map_option (\<lambda>e. if P e then e\<lparr>usageCount := js_increment (usageCount e)\<rparr> else e)
     (memory_get k ns)"
  by (induction ns) (auto simp: memory_get_def)

lemma total_usage_map:
  assumes "\<forall>(k, e) \<in> set ns. P e \<longrightarrow> - (2 ^ 53) \<le> usageCount e \<and> usageCount e < 2 ^ 53"
  shows "sum_list (map (usageCount \<circ> snd)
     (map (\<lambda>(k, e). (k, if P e then e\<lparr>usageCount := js_increment (usageCount e)\<rparr> else e)) ns)) =
   sum_list (map (usageCount \<circ> snd) ns) + int (length (filter P (map snd ns)))"
  using assms by (induction ns) (auto simp: js_increment_exact)

lemma keyed_by_get: "keyed_by ident ns \<Longrightarrow> (k, v) \<in> set ns \<Longrightarrow> memory_get k ns = Some v"
  by (simp add: keyed_by_def memory_get_def)

lemma keyed_by_ident: "keyed_by ident ns \<Longrightarrow> (k, v) \<in> set ns \<Longrightarrow> ident v = k"
  by (auto simp: keyed_by_def)

lemma keyed_by_mem: "memory_get k ns = Some v \<Longrightarrow> (k, v) \<in> set ns"
  by (simp add: memory_get_def map_of_SomeD)

text \<open>
  Claim C3, as the code has it. In a memory whose expertise namespace holds each record
  under its id, and in which the stored \<^verbatim>\<open>usageCount\<close> of every matching record is in
  the range from \<open>-2^53\<close> to below \<open>2^53\<close>, where the increment of a number is exact, a
  call of \<^verbatim>\<open>getViewpointExpertise(domain, type?)\<close> returns the matching records, each
  with its \<^verbatim>\<open>usageCount\<close> one above the stored one; when it returns, every returned
  record is the one stored under its id, and the records that do not match are as they
  were. The stored counts grow in total by the number of records returned, and while
  the returned counts are below \<open>2^53\<close>, an identical second call returns the same
  records with their counts one higher again.
\<close>

theorem usage_count_read_side_effect:
  assumes "keyed_by ve_id (VIEWPOINT_EXPERTISE_NS m)"
    and "\<forall>(k, e) \<in> set (VIEWPOINT_EXPERTISE_NS m). expertise_criteria domain type e \<longrightarrow>
           - (2 ^ 53) \<le> usageCount e \<and> usageCount e < 2 ^ 53"
  shows "fst (getViewpointExpertise domain type m) =
           map (\<lambda>e. e\<lparr>usageCount := usageCount e + 1\<rparr>)
             (memory_query (expertise_criteria domain type) (VIEWPOINT_EXPERTISE_NS m))
   \<and> (\<forall>r \<in> set (fst (getViewpointExpertise domain type m)).
        memory_get (ve_id r) (VIEWPOINT_EXPERTISE_NS (snd (getViewpointExpertise domain type m))) =
          Some r)
   \<and> (\<forall>k e. memory_get k (VIEWPOINT_EXPERTISE_NS m) = Some e \<longrightarrow>
        memory_get k (VIEWPOINT_EXPERTISE_NS (snd (getViewpointExpertise domain type m))) =
          Some (if expertise_criteria domain type e
                then e\<lparr>usageCount := usageCount e + 1\<rparr> else e))
   \<and> sum_list (map (usageCount \<circ> snd)
        (VIEWPOINT_EXPERTISE_NS (snd (getViewpointExpertise domain type m)))) =
      sum_list (map (usageCount \<circ> snd) (VIEWPOINT_EXPERTISE_NS m)) +
      int (length (fst (getViewpointExpertise domain type m)))
   \<and> ((\<forall>r \<in> set (fst (getViewpointExpertise domain type m)). usageCount r < 2 ^ 53) \<longrightarrow>
        fst (getViewpointExpertise domain type (snd (getViewpointExpertise domain type m))) =
          map (\<lambda>e. e\<lparr>usageCount := usageCount e + 1\<rparr>)
            (fst (getViewpointExpertise domain type m)))
   \<and> keyed_by ve_id (VIEWPOINT_EXPERTISE_NS (snd (getViewpointExpertise domain type m)))"
proof -
  let ?P = "expertise_criteria domain type"
  let ?bump = "\<lambda>e. e\<lparr>usageCount := js_increment (usageCount e)\<rparr>"
  let ?inc = "\<lambda>e. e\<lparr>usageCount := usageCount e + 1\<rparr>"
  let ?ns = "VIEWPOINT_EXPERTISE_NS m"
  let ?ns' = "map (\<lambda>(k, e). (k, if ?P e then ?bump e else e)) ?ns"
  let ?returned = "map ?bump (memory_query ?P ?ns)"
  have res: "fst (getViewpointExpertise domain type m) = ?returned"
    and ns': "VIEWPOINT_EXPERTISE_NS (snd (getViewpointExpertise domain type m)) = ?ns'"
    by (simp_all add: getViewpointExpertise_eq [OF assms(1)])
  have exact: "?bump e = ?inc e" if "(k, e) \<in> set ?ns" "?P e" for k e
    using assms(2) that by (auto simp: js_increment_exact)
  have returned: "?returned = map ?inc (memory_query ?P ?ns)"
    unfolding memory_query_def by (rule map_cong) (auto simp: exact)
  have inv': "keyed_by ve_id ?ns'"
    using assms(1) by (rule keyed_by_map_usage)
  have persisted: "memory_get (ve_id r) ?ns' = Some r" if "r \<in> set ?returned" for r
  proof -
    from that obtain k e where e: "(k, e) \<in> set ?ns" "?P e" "r = ?bump e"
      by (auto simp: memory_query_def)
    with assms(1) have "memory_get k ?ns = Some e" "ve_id e = k"
      by (auto dest: keyed_by_get keyed_by_ident)
    with e show ?thesis
      by (simp add: memory_get_map_usage)
  qed
  have others: "memory_get k ?ns' = Some (if ?P e then ?inc e else e)"
    if "memory_get k ?ns = Some e" for k e
  proof -
    from that have "(k, e) \<in> set ?ns" by (rule keyed_by_mem)
    then have "?P e \<Longrightarrow> ?bump e = ?inc e" by (rule exact)
    with that show ?thesis
      by (simp add: memory_get_map_usage)
  qed
  have total: "sum_list (map (usageCount \<circ> snd) ?ns') =
      sum_list (map (usageCount \<circ> snd) ?ns) + int (length ?returned)"
    unfolding memory_query_def length_map using assms(2) by (rule total_usage_map)
  have again: "fst (getViewpointExpertise domain type (snd (getViewpointExpertise domain type m))) =
      map ?inc ?returned" if below: "\<forall>r \<in> set ?returned. usageCount r < 2 ^ 53"
  proof -
    have "keyed_by ve_id (VIEWPOINT_EXPERTISE_NS (snd (getViewpointExpertise domain type m)))"
      using inv' by (simp add: ns')
    from getViewpointExpertise_eq [OF this, of domain type]
    have "fst (getViewpointExpertise domain type (snd (getViewpointExpertise domain type m))) =
        map ?bump ?returned"
      by (simp add: ns' query_map_usage)
    also have "\<dots> = map ?inc ?returned"
    proof (rule map_cong)
      fix r assume r: "r \<in> set ?returned"
      then obtain e where e: "e \<in> set (memory_query ?P ?ns)" "r = ?inc e"
        unfolding returned by auto
      then obtain k where "(k, e) \<in> set ?ns" "?P e"
        by (auto simp: memory_query_def)
      with assms(2) have "- (2 ^ 53) \<le> usageCount e" by auto
      with e have "- (2 ^ 53) \<le> usageCount r" by simp
      moreover from below r have "usageCount r < 2 ^ 53" by blast
      ultimately show "?bump r = ?inc r"
        by (simp add: js_increment_exact)
    qed simp
    finally show ?thesis .
  qed
  show ?thesis
    unfolding res ns'
  proof (intro conjI ballI allI impI)
    show "?returned = map ?inc (memory_query ?P ?ns)" by (rule returned)
    show "memory_get (ve_id r) ?ns' = Some r" if "r \<in> set ?returned" for r
      using that by (rule persisted)
    show "memory_get k ?ns' = Some (if ?P e then ?inc e else e)"
      if "memory_get k ?ns = Some e" for k e
      using that by (rule others)
    show "sum_list (map (usageCount \<circ> snd) ?ns') =
      sum_list (map (usageCount \<circ> snd) ?ns) + int (length ?returned)" by (rule total)
    show "fst (getViewpointExpertise domain type (snd (getViewpointExpertise domain type m))) =
      map ?inc ?returned" if "\<forall>r \<in> set ?returned. usageCount r < 2 ^ 53"
      using that by (rule again)
    show "keyed_by ve_id ?ns'" by (rule inv')
  qed
qed

text \<open>
  An instance: three records with the counts 0, 4 and 2, of which the first and the
  third are of the domain asked for. The call returns these two with the counts 1 and
  3, and the stored counts grow from 6 to 8.
\<close>

theorem usage_count_read_side_effect_witness:
  "keyed_by ve_id
     [(''e1'', sample_expertise ''e1'' job_billing 0), (''e2'', sample_expertise ''e2'' job_costing 4),
      (''e3'', sample_expertise ''e3'' job_billing 2)]
   \<and> fst (getViewpointExpertise job_billing None
       (empty_memory\<lparr>VIEWPOINT_EXPERTISE_NS :=
          [(''e1'', sample_expertise ''e1'' job_billing 0),
           (''e2'', sample_expertise ''e2'' job_costing 4),
           (''e3'', sample_expertise ''e3'' job_billing 2)]\<rparr>)) =
     [sample_expertise ''e1'' job_billing 1, sample_expertise ''e3'' job_billing 3]
   \<and> sum_list (map (usageCount \<circ> snd) (VIEWPOINT_EXPERTISE_NS (snd
       (getViewpointExpertise job_billing None
         (empty_memory\<lparr>VIEWPOINT_EXPERTISE_NS :=
            [(''e1'', sample_expertise ''e1'' job_billing 0),
             (''e2'', sample_expertise ''e2'' job_costing 4),
             (''e3'', sample_expertise ''e3'' job_billing 2)]\<rparr>))))) = 8"
proof -
  let ?ns = "[(''e1'', sample_expertise ''e1'' job_billing 0),
      (''e2'', sample_expertise ''e2'' job_costing 4),
      (''e3'', sample_expertise ''e3'' job_billing 2)]"
  let ?m = "empty_memory\<lparr>VIEWPOINT_EXPERTISE_NS := ?ns\<rparr>"
  have inv: "keyed_by ve_id ?ns"
    by (simp add: keyed_by_def sample_expertise_def)
  then have inv': "keyed_by ve_id (VIEWPOINT_EXPERTISE_NS ?m)"
    by simp
  have exact: "\<forall>(k, e) \<in> set (VIEWPOINT_EXPERTISE_NS ?m). expertise_criteria job_billing None e \<longrightarrow>
      - (2 ^ 53) \<le> usageCount e \<and> usageCount e < 2 ^ 53"
    by (simp add: sample_expertise_def)
  note facts = usage_count_read_side_effect [OF inv' exact]
  have returned: "fst (getViewpointExpertise job_billing None ?m) =
      [sample_expertise ''e1'' job_billing 1, sample_expertise ''e3'' job_billing 3]"
    using facts [THEN conjunct1]
    by (simp add: memory_query_def expertise_criteria_def sample_expertise_def)
  have "sum_list (map (usageCount \<circ> snd)
      (VIEWPOINT_EXPERTISE_NS (snd (getViewpointExpertise job_billing None ?m)))) = 8"
    using facts [THEN conjunct2, THEN conjunct2, THEN conjunct2, THEN conjunct1]
    unfolding returned by (simp add: sample_expertise_def)
  with inv returned show ?thesis by blast
qed

text \<open>
  The claim as written fails at the end of the exact range. A record imported with the
  count \<open>2^53 = 9007199254740992\<close> is returned by a read with that same count, and the
  stored count is that same count: \<open>2^53 + 1\<close> is not a double, and the increment
  rounds it back to \<open>2^53\<close>.
\<close>

theorem usage_count_saturates_counterexample:
  "map usageCount (fst (getViewpointExpertise job_billing None
     (exec (ImportKnowledgeBase
        \<lparr>viewpointExpertise = Some [sample_expertise ''e1'' job_billing 9007199254740992],
         arWizardKnowledge = None, databaseAnalyses = None, predictiveModels = None,
         exportedAt = 0\<rparr>) empty_memory))) = [9007199254740992]
   \<and> map (usageCount \<circ> snd) (VIEWPOINT_EXPERTISE_NS (snd (getViewpointExpertise job_billing None
     (exec (ImportKnowledgeBase
        \<lparr>viewpointExpertise = Some [sample_expertise ''e1'' job_billing 9007199254740992],
         arWizardKnowledge = None, databaseAnalyses = None, predictiveModels = None,
         exportedAt = 0\<rparr>) empty_memory)))) = [9007199254740992]"
  by (simp add: getViewpointExpertise_def importKnowledgeBase_def for_of_def or_empty_def
      import_expertise_def memory_query_def memory_store_def expertise_criteria_def
      sample_expertise_def empty_memory_def js_increment_def Let_def)

subsection \<open>Updating the performance of a model\<close>

text \<open>
  Claim C7. When a model is stored under the id, \<^verbatim>\<open>updateModelPerformance\<close> leaves
  under the id that model with its \<^verbatim>\<open>performance\<close> replaced and \<^verbatim>\<open>lastValidated\<close> set
  to the current time, and changes no other field, no other entry and no other
  namespace. When there is none, the memory is unchanged. The method returns in both
  cases.
\<close>

theorem update_model_performance_contract:
  "(memory_get modelId (PREDICTIVE_MODELS_NS m) = Some model \<longrightarrow>
      memory_get modelId (PREDICTIVE_MODELS_NS (updateModelPerformance modelId performance now m)) =
        Some (model\<lparr>pm_performance := performance, lastValidated := now\<rparr>)
    \<and> (\<forall>k. k \<noteq> modelId \<longrightarrow>
          memory_get k (PREDICTIVE_MODELS_NS (updateModelPerformance modelId performance now m)) =
          memory_get k (PREDICTIVE_MODELS_NS m))
    \<and> map fst (PREDICTIVE_MODELS_NS (updateModelPerformance modelId performance now m)) =
        map fst (PREDICTIVE_MODELS_NS m)
    \<and> VIEWPOINT_EXPERTISE_NS (updateModelPerformance modelId performance now m) =
        VIEWPOINT_EXPERTISE_NS m
    \<and> AR_WIZARD_KNOWLEDGE_NS (updateModelPerformance modelId performance now m) =
        AR_WIZARD_KNOWLEDGE_NS m
    \<and> DATABASE_ANALYSIS_NS (updateModelPerformance modelId performance now m) =
        DATABASE_ANALYSIS_NS m
    \<and> SHARED_CONTEXT_NS (updateModelPerformance modelId performance now m) =
        SHARED_CONTEXT_NS m)
   \<and> (memory_get modelId (PREDICTIVE_MODELS_NS m) = None \<longrightarrow>
        updateModelPerformance modelId performance now m = m)"
proof (intro conjI impI)
  assume stored: "memory_get modelId (PREDICTIVE_MODELS_NS m) = Some model"
  then have "modelId \<in> set (map fst (PREDICTIVE_MODELS_NS m))"
    by (auto simp: memory_get_def dest: map_of_SomeD intro: rev_image_eqI)
  then show "map fst (PREDICTIVE_MODELS_NS (updateModelPerformance modelId performance now m)) =
      map fst (PREDICTIVE_MODELS_NS m)"
    using stored by (simp add: updateModelPerformance_def memory_store_def update_keys)
qed (simp_all add: updateModelPerformance_def memory_get_store_same memory_get_store_other)

text \<open>
  An instance: the accuracy of model A is updated at time 99 and model B is as before;
  an update for an id that is not stored changes nothing.
\<close>

theorem update_model_performance_contract_witness:
  "memory_get ''A'' (PREDICTIVE_MODELS_NS (updateModelPerformance ''A''
       \<lparr>accuracy = 0.95, precision = 1, recall = 1, f1Score = 1\<rparr> 99
       (empty_memory\<lparr>PREDICTIVE_MODELS_NS :=
          [(''A'', sample_model ''A'' cost_analysis 0.80),
           (''B'', sample_model ''B'' cost_analysis 0.92)]\<rparr>))) =
     Some ((sample_model ''A'' cost_analysis 0.95)\<lparr>lastValidated := 99\<rparr>)
   \<and> memory_get ''B'' (PREDICTIVE_MODELS_NS (updateModelPerformance ''A''
       \<lparr>accuracy = 0.95, precision = 1, recall = 1, f1Score = 1\<rparr> 99
       (empty_memory\<lparr>PREDICTIVE_MODELS_NS :=
          [(''A'', sample_model ''A'' cost_analysis 0.80),
           (''B'', sample_model ''B'' cost_analysis 0.92)]\<rparr>))) =
     Some (sample_model ''B'' cost_analysis 0.92)
   \<and> updateModelPerformance ''Z'' \<lparr>accuracy = 0.95, precision = 1, recall = 1, f1Score = 1\<rparr> 99
       (empty_memory\<lparr>PREDICTIVE_MODELS_NS :=
          [(''A'', sample_model ''A'' cost_analysis 0.80),
           (''B'', sample_model ''B'' cost_analysis 0.92)]\<rparr>) =
     empty_memory\<lparr>PREDICTIVE_MODELS_NS :=
          [(''A'', sample_model ''A'' cost_analysis 0.80),
           (''B'', sample_model ''B'' cost_analysis 0.92)]\<rparr>"
proof -
  let ?m = "empty_memory\<lparr>PREDICTIVE_MODELS_NS :=
          [(''A'', sample_model ''A'' cost_analysis 0.80),
           (''B'', sample_model ''B'' cost_analysis 0.92)]\<rparr>"
  let ?p = "\<lparr>accuracy = 0.95, precision = 1, recall = 1, f1Score = 1\<rparr>"
  have a: "memory_get ''A'' (PREDICTIVE_MODELS_NS ?m) = Some (sample_model ''A'' cost_analysis 0.80)"
    and b: "memory_get ''B'' (PREDICTIVE_MODELS_NS ?m) = Some (sample_model ''B'' cost_analysis 0.92)"
    and z: "memory_get ''Z'' (PREDICTIVE_MODELS_NS ?m) = None"
    by (simp_all add: memory_get_def)
  have upd: "(sample_model ''A'' cost_analysis 0.80)\<lparr>pm_performance := ?p, lastValidated := 99\<rparr> =
      (sample_model ''A'' cost_analysis 0.95)\<lparr>lastValidated := 99\<rparr>"
    by (simp add: sample_model_def)
  have other: "''B'' \<noteq> ''A''" by simp
  from update_model_performance_contract [of "''A''" ?m "sample_model ''A'' cost_analysis 0.80" ?p 99]
    a b upd other
  have "memory_get ''A'' (PREDICTIVE_MODELS_NS (updateModelPerformance ''A'' ?p 99 ?m)) =
      Some ((sample_model ''A'' cost_analysis 0.95)\<lparr>lastValidated := 99\<rparr>)"
    and "memory_get ''B'' (PREDICTIVE_MODELS_NS (updateModelPerformance ''A'' ?p 99 ?m)) =
      Some (sample_model ''B'' cost_analysis 0.92)"
    by metis+
  moreover from update_model_performance_contract [of "''Z''" ?m _ ?p 99] z
  have "updateModelPerformance ''Z'' ?p 99 ?m = ?m"
    by blast
  ultimately show ?thesis by blast
qed

subsection \<open>Import\<close>

lemma for_of_or_empty: "for_of (or_empty xs) body s = Inr (fold body (array_of xs) s)"
  by (simp add: for_of_def or_empty_def split: option.splits)

lemma importKnowledgeBase_eq:
  "importKnowledgeBase data m =
     Inr (fold import_model (array_of (predictiveModels data))
           (fold import_analysis (array_of (databaseAnalyses data))
             (fold import_knowledge (array_of (arWizardKnowledge data))
               (fold import_expertise (array_of (viewpointExpertise data)) m))))"
  by (simp add: importKnowledgeBase_def for_of_or_empty)

lemma fold_import_expertise:
  "fold import_expertise es m =
     m\<lparr>VIEWPOINT_EXPERTISE_NS :=
         fold (\<lambda>e. memory_store (ve_id e) e) es (VIEWPOINT_EXPERTISE_NS m)\<rparr>"
  by (induction es arbitrary: m) (simp_all add: import_expertise_def)

lemma fold_import_knowledge:
  "fold import_knowledge ks m =
     m\<lparr>AR_WIZARD_KNOWLEDGE_NS :=
         fold (\<lambda>k. memory_store (ak_id k) k) ks (AR_WIZARD_KNOWLEDGE_NS m)\<rparr>"
  by (induction ks arbitrary: m) (simp_all add: import_knowledge_def)

lemma fold_import_analysis:
  "fold import_analysis as m =
     m\<lparr>DATABASE_ANALYSIS_NS :=
         fold (\<lambda>a. memory_store (da_id a) a) as (DATABASE_ANALYSIS_NS m)\<rparr>"
  by (induction as arbitrary: m) (simp_all add: import_analysis_def)

lemma fold_import_model:
  "fold import_model ms m =
     m\<lparr>PREDICTIVE_MODELS_NS :=
         fold (\<lambda>x. memory_store (pm_id x) x) ms (PREDICTIVE_MODELS_NS m)\<rparr>"
  by (induction ms arbitrary: m) (simp_all add: import_model_def)

lemmas fold_import = fold_import_expertise fold_import_knowledge fold_import_analysis
  fold_import_model

lemma find_append:
  "find P (xs @ ys) = (case find P xs of None \<Rightarrow> find P ys | Some x \<Rightarrow> Some x)"
  by (induction xs) simp_all

text \<open>
  After the stores of a loop, a key holds the last record of the array with that id,
  and what it held before when the array has none.
\<close>

lemma memory_get_fold_store:
  "memory_get k (fold (\<lambda>r. memory_store (ident r) r) rs ns) =
     (case find (\<lambda>r. ident r = k) (rev rs) of None \<Rightarrow> memory_get k ns | Some r \<Rightarrow> Some r)"
proof (induction rs arbitrary: ns)
  case Nil
  then show ?case by simp
next
  case (Cons r rs)
  show ?case
  proof (cases "find (\<lambda>r. ident r = k) (rev rs)")
    case None
    then show ?thesis
      by (simp add: Cons.IH find_append memory_get_store_same memory_get_store_other)
  next
    case (Some r')
    then show ?thesis
      by (simp add: Cons.IH find_append)
  qed
qed

text \<open>
  Claim C8. \<^verbatim>\<open>importKnowledgeBase\<close> returns; afterwards, in each of the four
  namespaces, an id of the snapshot's array holds the snapshot's record of that id
  (the last one, should the array repeat the id), and every other id holds what it
  held before. The shared context is not touched.
\<close>

theorem import_is_merge:
  "\<exists>m'. importKnowledgeBase data m = Inr m'
     \<and> (\<forall>k. memory_get k (VIEWPOINT_EXPERTISE_NS m') =
           (case find (\<lambda>r. ve_id r = k) (rev (array_of (viewpointExpertise data))) of
              None \<Rightarrow> memory_get k (VIEWPOINT_EXPERTISE_NS m) | Some r \<Rightarrow> Some r))
     \<and> (\<forall>k. memory_get k (AR_WIZARD_KNOWLEDGE_NS m') =
           (case find (\<lambda>r. ak_id r = k) (rev (array_of (arWizardKnowledge data))) of
              None \<Rightarrow> memory_get k (AR_WIZARD_KNOWLEDGE_NS m) | Some r \<Rightarrow> Some r))
     \<and> (\<forall>k. memory_get k (DATABASE_ANALYSIS_NS m') =
           (case find (\<lambda>r. da_id r = k) (rev (array_of (databaseAnalyses data))) of
              None \<Rightarrow> memory_get k (DATABASE_ANALYSIS_NS m) | Some r \<Rightarrow> Some r))
     \<and> (\<forall>k. memory_get k (PREDICTIVE_MODELS_NS m') =
           (case find (\<lambda>r. pm_id r = k) (rev (array_of (predictiveModels data))) of
              None \<Rightarrow> memory_get k (PREDICTIVE_MODELS_NS m) | Some r \<Rightarrow> Some r))
     \<and> SHARED_CONTEXT_NS m' = SHARED_CONTEXT_NS m"
  by (simp add: importKnowledgeBase_eq fold_import memory_get_fold_store)

text \<open>
  An instance: the memory holds the expertise e1 (count 5) and e2 (count 4); the
  snapshot holds e1 with the count 0 and a new e3, and no other array. After the
  import e1 is the snapshot's record, e2 is as before, and e3 is stored.
\<close>

theorem import_is_merge_witness:
  "\<exists>m'. importKnowledgeBase
       \<lparr>viewpointExpertise = Some [sample_expertise ''e1'' job_billing 0,
                                    sample_expertise ''e3'' job_billing 1],
        arWizardKnowledge = None, databaseAnalyses = None, predictiveModels = None,
        exportedAt = 0\<rparr>
       (empty_memory\<lparr>VIEWPOINT_EXPERTISE_NS :=
          [(''e1'', sample_expertise ''e1'' job_billing 5),
           (''e2'', sample_expertise ''e2'' job_costing 4)]\<rparr>) = Inr m'
     \<and> memory_get ''e1'' (VIEWPOINT_EXPERTISE_NS m') = Some (sample_expertise ''e1'' job_billing 0)
     \<and> memory_get ''e2'' (VIEWPOINT_EXPERTISE_NS m') = Some (sample_expertise ''e2'' job_costing 4)
     \<and> memory_get ''e3'' (VIEWPOINT_EXPERTISE_NS m') = Some (sample_expertise ''e3'' job_billing 1)"
  using import_is_merge [of
       "\<lparr>viewpointExpertise = Some [sample_expertise ''e1'' job_billing 0,
                                    sample_expertise ''e3'' job_billing 1],
        arWizardKnowledge = None, databaseAnalyses = None, predictiveModels = None,
        exportedAt = 0\<rparr>"
       "empty_memory\<lparr>VIEWPOINT_EXPERTISE_NS :=
          [(''e1'', sample_expertise ''e1'' job_billing 5),
           (''e2'', sample_expertise ''e2'' job_costing 4)]\<rparr>"]
  by (auto simp: sample_expertise_def memory_get_def)

text \<open>
  Claim C10. For a snapshot object in which any of the four arrays is missing or null,
  \<^verbatim>\<open>importKnowledgeBase\<close> returns without an error. It runs the four loops over the
  arrays that are present; a namespace whose array is absent is as it was, and an
  absent array gives the result that an empty array gives.
\<close>

theorem import_tolerates_partial_snapshots:
  "\<exists>m'. importKnowledgeBase data m = Inr m'
     \<and> m' = fold import_model (array_of (predictiveModels data))
              (fold import_analysis (array_of (databaseAnalyses data))
                (fold import_knowledge (array_of (arWizardKnowledge data))
                  (fold import_expertise (array_of (viewpointExpertise data)) m)))
     \<and> (viewpointExpertise data = None \<longrightarrow> VIEWPOINT_EXPERTISE_NS m' = VIEWPOINT_EXPERTISE_NS m)
     \<and> (arWizardKnowledge data = None \<longrightarrow> AR_WIZARD_KNOWLEDGE_NS m' = AR_WIZARD_KNOWLEDGE_NS m)
     \<and> (databaseAnalyses data = None \<longrightarrow> DATABASE_ANALYSIS_NS m' = DATABASE_ANALYSIS_NS m)
     \<and> (predictiveModels data = None \<longrightarrow> PREDICTIVE_MODELS_NS m' = PREDICTIVE_MODELS_NS m)
     \<and> importKnowledgeBase (data\<lparr>viewpointExpertise := None\<rparr>) m =
         importKnowledgeBase (data\<lparr>viewpointExpertise := Some []\<rparr>) m
     \<and> importKnowledgeBase (data\<lparr>arWizardKnowledge := None\<rparr>) m =
         importKnowledgeBase (data\<lparr>arWizardKnowledge := Some []\<rparr>) m
     \<and> importKnowledgeBase (data\<lparr>databaseAnalyses := None\<rparr>) m =
         importKnowledgeBase (data\<lparr>databaseAnalyses := Some []\<rparr>) m
     \<and> importKnowledgeBase (data\<lparr>predictiveModels := None\<rparr>) m =
         importKnowledgeBase (data\<lparr>predictiveModels := Some []\<rparr>) m"
  by (simp add: importKnowledgeBase_eq fold_import)

text \<open>
  An instance: a snapshot with the models array only, imported into the empty memory,
  stores the model and nothing else; a snapshot with no array changes nothing.
\<close>

theorem import_tolerates_partial_snapshots_witness:
  "importKnowledgeBase
     \<lparr>viewpointExpertise = None, arWizardKnowledge = None, databaseAnalyses = None,
      predictiveModels = Some [sample_model ''A'' cost_analysis 0.80], exportedAt = 0\<rparr>
     empty_memory =
     Inr (empty_memory\<lparr>PREDICTIVE_MODELS_NS := [(''A'', sample_model ''A'' cost_analysis 0.80)]\<rparr>)
   \<and> importKnowledgeBase
     \<lparr>viewpointExpertise = None, arWizardKnowledge = None, databaseAnalyses = None,
      predictiveModels = None, exportedAt = 0\<rparr>
     (empty_memory :: nat memory) = Inr empty_memory"
  using import_tolerates_partial_snapshots [of
     "\<lparr>viewpointExpertise = None, arWizardKnowledge = None, databaseAnalyses = None,
      predictiveModels = Some [sample_model ''A'' cost_analysis 0.80], exportedAt = 0\<rparr>"
     empty_memory]
    import_tolerates_partial_snapshots [of
     "\<lparr>viewpointExpertise = None, arWizardKnowledge = None, databaseAnalyses = None,
      predictiveModels = None, exportedAt = 0\<rparr>" "empty_memory :: nat memory"]
  by (auto simp: import_model_def memory_store_def empty_memory_def sample_model_def)

subsection \<open>The invariant is kept\<close>

lemma set_update_subset: "set (AList.update k v ns) \<subseteq> insert (k, v) (set ns)"
  by (induction ns) auto

lemma keyed_by_store:
  assumes "keyed_by ident ns" and "ident v = k"
  shows "keyed_by ident (memory_store k v ns)"
proof -
  from assms(1) have "distinct (map fst (memory_store k v ns))"
    by (simp add: keyed_by_def memory_store_def distinct_update)
  moreover have "\<forall>(k', v') \<in> set (memory_store k v ns). ident v' = k'"
    using assms set_update_subset [of k v ns]
    by (auto simp: keyed_by_def memory_store_def)
  ultimately show ?thesis
    by (simp add: keyed_by_def)
qed

lemma keyed_by_filter: "keyed_by ident ns \<Longrightarrow> keyed_by ident (filter P ns)"
  by (auto simp: keyed_by_def distinct_map_filter)

lemma keyed_by_delete: "keyed_by ident ns \<Longrightarrow> keyed_by ident (memory_delete k ns)"
  by (simp add: memory_delete_filter keyed_by_filter)

lemma keyed_by_fold_store:
  "keyed_by ident ns \<Longrightarrow> keyed_by ident (fold (\<lambda>r. memory_store (ident r) r) rs ns)"
  by (induction rs arbitrary: ns) (simp_all add: keyed_by_store)

lemma keyed_by_last_used_loop:
  "keyed_by ak_id ns \<Longrightarrow> keyed_by ak_id (snd (last_used_loop clock i items ns))"
proof (induction items arbitrary: i ns)
  case Nil
  then show ?case by simp
next
  case (Cons item items)
  have "keyed_by ak_id (memory_store (ak_id item) (item\<lparr>lastUsed := clock i\<rparr>) ns)"
    using Cons.prems by (rule keyed_by_store) simp
  from Cons.IH [OF this, of "Suc i"] show ?case
    by (simp add: Let_def case_prod_beta)
qed

lemma consistent_empty: "consistent empty_memory"
  by (simp add: consistent_def keyed_by_def empty_memory_def)

lemma consistent_getViewpointExpertise:
  "consistent m \<Longrightarrow> consistent (snd (getViewpointExpertise domain type m))"
  by (simp add: consistent_def getViewpointExpertise_eq keyed_by_map_usage)

lemma consistent_getARWizardKnowledge:
  "consistent m \<Longrightarrow> consistent (snd (getARWizardKnowledge category clock m))"
  by (simp add: consistent_def getARWizardKnowledge_def keyed_by_last_used_loop
      case_prod_beta Let_def)

lemma consistent_updateModelPerformance:
  assumes "consistent m"
  shows "consistent (updateModelPerformance modelId performance now m)"
proof (cases "memory_get modelId (PREDICTIVE_MODELS_NS m)")
  case None
  with assms show ?thesis by (simp add: updateModelPerformance_def)
next
  case (Some model)
  from assms have inv: "keyed_by pm_id (PREDICTIVE_MODELS_NS m)"
    by (simp add: consistent_def)
  with Some have "pm_id model = modelId"
    by (auto dest: keyed_by_mem keyed_by_ident)
  then have "keyed_by pm_id (memory_store modelId
      (model\<lparr>pm_performance := performance, lastValidated := now\<rparr>) (PREDICTIVE_MODELS_NS m))"
    using inv by (intro keyed_by_store) simp_all
  with assms Some show ?thesis
    by (simp add: updateModelPerformance_def consistent_def)
qed

lemma consistent_importKnowledgeBase:
  "consistent m \<Longrightarrow> importKnowledgeBase data m = Inr m' \<Longrightarrow> consistent m'"
  by (auto simp: importKnowledgeBase_eq fold_import consistent_def keyed_by_fold_store)

lemma consistent_cleanupExpiredAnalyses:
  "consistent m \<Longrightarrow> consistent (cleanupExpiredAnalyses now m)"
  by (simp add: cleanup_eq consistent_def keyed_by_filter)

lemma exec_consistent: "consistent m \<Longrightarrow> consistent (exec operation m)"
proof (cases operation)
  case (StoreViewpointExpertise newId expertise now)
  then show "consistent m \<Longrightarrow> ?thesis"
    by (simp add: storeViewpointExpertise_def consistent_def keyed_by_store)
next
  case (GetViewpointExpertise domain ty)
  then show "consistent m \<Longrightarrow> ?thesis"
    by (simp add: consistent_getViewpointExpertise)
next
  case (StoreARWizardKnowledge newId knowledge now1 now2)
  then show "consistent m \<Longrightarrow> ?thesis"
    by (simp add: storeARWizardKnowledge_def consistent_def keyed_by_store)
next
  case (GetARWizardKnowledge category clock)
  then show "consistent m \<Longrightarrow> ?thesis"
    by (simp add: consistent_getARWizardKnowledge)
next
  case (StoreDatabaseAnalysis newId analysis now)
  then show "consistent m \<Longrightarrow> ?thesis"
    by (simp add: storeDatabaseAnalysis_def consistent_def keyed_by_store)
next
  case (StorePredictiveModel newId model now1 now2)
  then show "consistent m \<Longrightarrow> ?thesis"
    by (simp add: storePredictiveModel_def consistent_def keyed_by_store)
next
  case (UpdateModelPerformance modelId performance now)
  then show "consistent m \<Longrightarrow> ?thesis"
    by (simp add: consistent_updateModelPerformance)
next
  case (StoreSharedContext key ctx ttl now)
  then show "consistent m \<Longrightarrow> ?thesis"
    by (simp add: storeSharedContext_def consistent_def memory_store_def distinct_update)
next
  case (GetSharedContext key now)
  then show "consistent m \<Longrightarrow> ?thesis"
    by (simp add: getSharedContext_def consistent_def memory_delete_def distinct_delete
        split: option.splits)
next
  case (ImportKnowledgeBase data)
  then show "consistent m \<Longrightarrow> ?thesis"
    by (simp add: consistent_importKnowledgeBase split: sum.splits)
next
  case (PerformMaintenance now1 now2)
  then show "consistent m \<Longrightarrow> ?thesis"
    by (simp add: performMaintenance_def optimizeMemoryUsage_def archiveOldKnowledge_def
        consistent_cleanupExpiredAnalyses)
qed (simp_all add: integrateExistingExpertSystems_def)

lemma reachable_consistent: "reachable m \<Longrightarrow> consistent m"
  by (induction rule: reachable.induct) (simp_all add: consistent_empty exec_consistent)

subsection \<open>The usage count across the interface\<close>

lemma find_None_notin: "k \<notin> set (map ident rs) \<Longrightarrow> find (\<lambda>r. ident r = k) (rev rs) = None"
  by (auto simp: find_None_iff)

lemma find_Some_in:
  "k \<in> set (map ident rs) \<Longrightarrow> \<exists>r. find (\<lambda>r. ident r = k) (rev rs) = Some r"
  by (cases "find (\<lambda>r. ident r = k) (rev rs)") (auto simp: find_None_iff)

lemma import_expertise_namespace:
  "memory_get k (VIEWPOINT_EXPERTISE_NS (exec (ImportKnowledgeBase data) m)) =
     (case find (\<lambda>r. ve_id r = k) (rev (array_of (viewpointExpertise data))) of
        None \<Rightarrow> memory_get k (VIEWPOINT_EXPERTISE_NS m) | Some r \<Rightarrow> Some r)"
  by (simp add: importKnowledgeBase_eq fold_import memory_get_fold_store)

text \<open>
  Every call other than an import that has the id in its snapshot leaves a stored
  expertise record as it is, or with its count incremented.
\<close>

lemma exec_expertise_record:
  assumes "keyed_by ve_id (VIEWPOINT_EXPERTISE_NS m)"
    and "fresh_id operation m"
    and "\<not> imports_id operation k"
    and "memory_get k (VIEWPOINT_EXPERTISE_NS m) = Some e"
  shows "memory_get k (VIEWPOINT_EXPERTISE_NS (exec operation m)) = Some e \<or>
         memory_get k (VIEWPOINT_EXPERTISE_NS (exec operation m)) =
           Some (e\<lparr>usageCount := js_increment (usageCount e)\<rparr>)"
proof (cases operation)
  case (StoreViewpointExpertise newId expertise now)
  from assms(4) have "k \<in> set (map fst (VIEWPOINT_EXPERTISE_NS m))"
    by (auto dest!: keyed_by_mem intro: rev_image_eqI)
  with assms(2) StoreViewpointExpertise have "k \<noteq> newId"
    by auto
  with assms(4) StoreViewpointExpertise show ?thesis
    by (simp add: storeViewpointExpertise_def memory_get_store_other)
next
  case (GetViewpointExpertise domain ty)
  with assms(1,4) show ?thesis
    by (simp add: getViewpointExpertise_eq memory_get_map_usage)
next
  case (StoreARWizardKnowledge newId knowledge now1 now2)
  with assms(4) show ?thesis
    by (simp add: storeARWizardKnowledge_def)
next
  case (GetARWizardKnowledge category clock)
  with assms(4) show ?thesis
    by (simp add: getARWizardKnowledge_def case_prod_beta Let_def)
next
  case (StoreDatabaseAnalysis newId analysis now)
  with assms(4) show ?thesis
    by (simp add: storeDatabaseAnalysis_def)
next
  case (StorePredictiveModel newId model now1 now2)
  with assms(4) show ?thesis
    by (simp add: storePredictiveModel_def)
next
  case (UpdateModelPerformance modelId performance now)
  with assms(4) show ?thesis
    by (simp add: updateModelPerformance_def split: option.splits)
next
  case (StoreSharedContext key ctx ttl now)
  with assms(4) show ?thesis
    by (simp add: storeSharedContext_def)
next
  case (GetSharedContext key now)
  with assms(4) show ?thesis
    by (simp add: getSharedContext_def split: option.splits)
next
  case (ImportKnowledgeBase data)
  with assms(3) have "find (\<lambda>r. ve_id r = k) (rev (array_of (viewpointExpertise data))) = None"
    by (intro find_None_notin) simp
  with assms(4) ImportKnowledgeBase show ?thesis
    by (simp add: import_expertise_namespace del: exec.simps)
next
  case (PerformMaintenance now1 now2)
  with assms(4) show ?thesis
    by (simp add: performMaintenance_def optimizeMemoryUsage_def archiveOldKnowledge_def
        cleanup_eq)
qed (use assms(4) in \<open>simp_all add: integrateExistingExpertSystems_def\<close>)

text \<open>
  Claim C6, as the code has it. Take a memory whose expertise namespace holds each
  record under its id, and let the id that \<^verbatim>\<open>generateId\<close> returns to a store method be
  new in its namespace. Then no call of the public interface other than an import
  lowers the \<^verbatim>\<open>usageCount\<close> stored for an existing expertise id: the call leaves the
  record as it is, or with its count incremented. \<^verbatim>\<open>importKnowledgeBase\<close> leaves the
  record of every id that is not in the expertise array of its snapshot as it is, and
  leaves under every id of that array the snapshot's record of the id (the last one,
  should the array repeat the id), count included.
\<close>

theorem usage_count_never_lowered:
  "(keyed_by ve_id (VIEWPOINT_EXPERTISE_NS m) \<and> fresh_id operation m \<and>
    \<not> imports_id operation k \<and> memory_get k (VIEWPOINT_EXPERTISE_NS m) = Some e \<longrightarrow>
      (\<exists>e'. memory_get k (VIEWPOINT_EXPERTISE_NS (exec operation m)) = Some e' \<and>
            (e' = e \<or> e' = e\<lparr>usageCount := js_increment (usageCount e)\<rparr>) \<and>
            usageCount e \<le> usageCount e'))
   \<and> (\<not> imports_id (ImportKnowledgeBase data) k \<longrightarrow>
        memory_get k (VIEWPOINT_EXPERTISE_NS (exec (ImportKnowledgeBase data) m)) =
        memory_get k (VIEWPOINT_EXPERTISE_NS m))
   \<and> (imports_id (ImportKnowledgeBase data) k \<longrightarrow>
        (\<exists>r. find (\<lambda>r. ve_id r = k) (rev (array_of (viewpointExpertise data))) = Some r \<and>
             memory_get k (VIEWPOINT_EXPERTISE_NS (exec (ImportKnowledgeBase data) m)) = Some r))"
proof (intro conjI impI)
  assume "keyed_by ve_id (VIEWPOINT_EXPERTISE_NS m) \<and> fresh_id operation m \<and>
    \<not> imports_id operation k \<and> memory_get k (VIEWPOINT_EXPERTISE_NS m) = Some e"
  then have "memory_get k (VIEWPOINT_EXPERTISE_NS (exec operation m)) = Some e \<or>
         memory_get k (VIEWPOINT_EXPERTISE_NS (exec operation m)) =
           Some (e\<lparr>usageCount := js_increment (usageCount e)\<rparr>)"
    by (intro exec_expertise_record) simp_all
  then show "\<exists>e'. memory_get k (VIEWPOINT_EXPERTISE_NS (exec operation m)) = Some e' \<and>
            (e' = e \<or> e' = e\<lparr>usageCount := js_increment (usageCount e)\<rparr>) \<and>
            usageCount e \<le> usageCount e'"
    by (auto simp: js_increment_ge)
next
  assume "\<not> imports_id (ImportKnowledgeBase data) k"
  then have "find (\<lambda>r. ve_id r = k) (rev (array_of (viewpointExpertise data))) = None"
    by (intro find_None_notin) simp
  then show "memory_get k (VIEWPOINT_EXPERTISE_NS (exec (ImportKnowledgeBase data) m)) =
        memory_get k (VIEWPOINT_EXPERTISE_NS m)"
    by (simp add: import_expertise_namespace del: exec.simps)
next
  assume "imports_id (ImportKnowledgeBase data) k"
  then obtain r where "find (\<lambda>r. ve_id r = k) (rev (array_of (viewpointExpertise data))) = Some r"
    using find_Some_in [of k ve_id "array_of (viewpointExpertise data)"] by auto
  then show "\<exists>r. find (\<lambda>r. ve_id r = k) (rev (array_of (viewpointExpertise data))) = Some r \<and>
      memory_get k (VIEWPOINT_EXPERTISE_NS (exec (ImportKnowledgeBase data) m)) = Some r"
    by (simp add: import_expertise_namespace del: exec.simps)
qed

text \<open>
  An instance, in a memory with e1 (count 5) and e2 (count 4). A store under the new id
  e9 leaves the count of e2 at 4 or above. An import whose snapshot has e1 with the
  count 0 leaves e2 as it is and leaves the snapshot's e1 under e1.
\<close>

theorem usage_count_never_lowered_witness:
  "keyed_by ve_id
     [(''e1'', sample_expertise ''e1'' job_billing 5), (''e2'', sample_expertise ''e2'' job_costing 4)]
   \<and> fresh_id (StoreViewpointExpertise ''e9'' (sample_expertise ''x'' job_costing 7) 3)
       (empty_memory\<lparr>VIEWPOINT_EXPERTISE_NS :=
          [(''e1'', sample_expertise ''e1'' job_billing 5),
           (''e2'', sample_expertise ''e2'' job_costing 4)]\<rparr>)
   \<and> (\<exists>e'. memory_get ''e2'' (VIEWPOINT_EXPERTISE_NS
         (exec (StoreViewpointExpertise ''e9'' (sample_expertise ''x'' job_costing 7) 3)
            (empty_memory\<lparr>VIEWPOINT_EXPERTISE_NS :=
               [(''e1'', sample_expertise ''e1'' job_billing 5),
                (''e2'', sample_expertise ''e2'' job_costing 4)]\<rparr>))) = Some e'
         \<and> 4 \<le> usageCount e')
   \<and> \<not> imports_id (ImportKnowledgeBase
         \<lparr>viewpointExpertise = Some [sample_expertise ''e1'' job_billing 0],
          arWizardKnowledge = None, databaseAnalyses = None, predictiveModels = None,
          exportedAt = 0\<rparr>) ''e2''
   \<and> memory_get ''e2'' (VIEWPOINT_EXPERTISE_NS
       (exec (ImportKnowledgeBase
          \<lparr>viewpointExpertise = Some [sample_expertise ''e1'' job_billing 0],
           arWizardKnowledge = None, databaseAnalyses = None, predictiveModels = None,
           exportedAt = 0\<rparr>)
         (empty_memory\<lparr>VIEWPOINT_EXPERTISE_NS :=
            [(''e1'', sample_expertise ''e1'' job_billing 5),
             (''e2'', sample_expertise ''e2'' job_costing 4)]\<rparr>))) =
       Some (sample_expertise ''e2'' job_costing 4)
   \<and> imports_id (ImportKnowledgeBase
         \<lparr>viewpointExpertise = Some [sample_expertise ''e1'' job_billing 0],
          arWizardKnowledge = None, databaseAnalyses = None, predictiveModels = None,
          exportedAt = 0\<rparr>) ''e1''
   \<and> memory_get ''e1'' (VIEWPOINT_EXPERTISE_NS
       (exec (ImportKnowledgeBase
          \<lparr>viewpointExpertise = Some [sample_expertise ''e1'' job_billing 0],
           arWizardKnowledge = None, databaseAnalyses = None, predictiveModels = None,
           exportedAt = 0\<rparr>)
         (empty_memory\<lparr>VIEWPOINT_EXPERTISE_NS :=
            [(''e1'', sample_expertise ''e1'' job_billing 5),
             (''e2'', sample_expertise ''e2'' job_costing 4)]\<rparr>))) =
       Some (sample_expertise ''e1'' job_billing 0)"
proof -
  let ?ns = "[(''e1'', sample_expertise ''e1'' job_billing 5),
      (''e2'', sample_expertise ''e2'' job_costing 4)]"
  let ?m = "empty_memory\<lparr>VIEWPOINT_EXPERTISE_NS := ?ns\<rparr>"
  let ?store = "StoreViewpointExpertise ''e9'' (sample_expertise ''x'' job_costing 7) 3"
  let ?data = "\<lparr>viewpointExpertise = Some [sample_expertise ''e1'' job_billing 0],
      arWizardKnowledge = None, databaseAnalyses = None, predictiveModels = None,
      exportedAt = 0\<rparr>"
  have inv: "keyed_by ve_id ?ns"
    by (simp add: keyed_by_def sample_expertise_def)
  have fresh: "fresh_id ?store ?m" and no_import: "\<not> imports_id ?store ''e2''"
    by simp_all
  have stored: "memory_get ''e2'' ?ns = Some (sample_expertise ''e2'' job_costing 4)"
    by (simp add: memory_get_def)
  have count: "usageCount (sample_expertise ''e2'' job_costing 4) = 4"
    by (simp add: sample_expertise_def)
  have other: "\<not> imports_id (ImportKnowledgeBase ?data) ''e2''"
    and same: "imports_id (ImportKnowledgeBase ?data) ''e1''"
    by (simp_all add: sample_expertise_def)
  have last: "find (\<lambda>r. ve_id r = ''e1'') (rev (array_of (viewpointExpertise ?data))) =
      Some (sample_expertise ''e1'' job_billing 0)"
    by (simp add: sample_expertise_def)
  note facts = usage_count_never_lowered
    [of ?m ?store "''e2''" "sample_expertise ''e2'' job_costing 4" ?data]
  from facts inv fresh no_import stored
  have "\<exists>e'. memory_get ''e2'' (VIEWPOINT_EXPERTISE_NS (exec ?store ?m)) = Some e' \<and>
      usageCount (sample_expertise ''e2'' job_costing 4) \<le> usageCount e'"
    by auto
  then have a: "\<exists>e'. memory_get ''e2'' (VIEWPOINT_EXPERTISE_NS (exec ?store ?m)) = Some e' \<and>
      4 \<le> usageCount e'"
    unfolding count .
  from facts other stored
  have b: "memory_get ''e2'' (VIEWPOINT_EXPERTISE_NS (exec (ImportKnowledgeBase ?data) ?m)) =
      Some (sample_expertise ''e2'' job_costing 4)"
    by simp
  from usage_count_never_lowered
    [of ?m ?store "''e1''" "sample_expertise ''e2'' job_costing 4" ?data] same last
  have c: "memory_get ''e1'' (VIEWPOINT_EXPERTISE_NS (exec (ImportKnowledgeBase ?data) ?m)) =
      Some (sample_expertise ''e1'' job_billing 0)"
    by auto
  from inv fresh a other b same c show ?thesis by blast
qed

text \<open>
  The claim as written fails for an import. An expertise record is stored, the
  knowledge base is exported, and a read raises the stored count to 1; importing the
  export writes the record with the count 0 over it.
\<close>

theorem import_lowers_usage_count_counterexample:
  "map_option usageCount (memory_get ''e1'' (VIEWPOINT_EXPERTISE_NS
     (exec (GetViewpointExpertise job_billing None)
       (exec (StoreViewpointExpertise ''e1'' (sample_expertise ''x'' job_billing 0) 1)
          empty_memory)))) = Some 1
   \<and> map_option usageCount (memory_get ''e1'' (VIEWPOINT_EXPERTISE_NS
     (exec (ImportKnowledgeBase (exportKnowledgeBase 2
              (exec (StoreViewpointExpertise ''e1'' (sample_expertise ''x'' job_billing 0) 1)
                 empty_memory)))
       (exec (GetViewpointExpertise job_billing None)
         (exec (StoreViewpointExpertise ''e1'' (sample_expertise ''x'' job_billing 0) 1)
            empty_memory))))) = Some 0"
  by (simp add: storeViewpointExpertise_def getViewpointExpertise_def exportKnowledgeBase_def
      importKnowledgeBase_def for_of_def or_empty_def import_expertise_def memory_query_def
      memory_store_def memory_get_def expertise_criteria_def sample_expertise_def
      empty_memory_def js_increment_def Let_def)

end
